theory Spec2Isabelle
  imports Complex_Main "HOL-Library.AList" "HOL-Library.Word"
begin

section \<open>Go primitives used by the aquarium\<close>

text \<open>
  Conventions of the embedding.
  \<^item> Go's \<open>float64\<close> is idealised as \<open>real\<close>: rounding, infinities and NaN are not
    modelled, except at the one place where the code divides a float by a cell height
    that may be zero (see \<open>Update\<close>).
  \<^item> Go's \<open>int\<close> is \<open>int\<close>; the two canvas products \<open>Columns * CellWidth\<close> and
    \<open>Rows * CellHeight\<close> carry the 64-bit wrap-around explicitly.
  \<^item> \<open>uint64\<close> identifiers and counters are \<open>nat\<close>, incremented modulo \<open>2^64\<close>.
  \<^item> Every call of \<open>math/rand\<close> is an explicit argument (a draw), so each function is
    a pure function of its state and of the draws it consumes.
  \<^item> A Go map is an association list whose order stands for the iteration order the
    runtime happens to pick.
  \<^item> Each method runs under the manager's mutex as one step. The one call that waits for
    another goroutine while it holds the mutex, \<open>RemoveConnection\<close>, takes the position
    of that goroutine as an argument and may block.
\<close>

definition int64_wrap :: "int \<Rightarrow> int" where
  "int64_wrap x = (x + 2 ^ 63) mod 2 ^ 64 - 2 ^ 63"

text \<open>Conversion \<open>int(x)\<close> of a float: truncation towards zero.\<close>

definition go_int :: "real \<Rightarrow> int" where
  "go_int x = (if 0 \<le> x then \<lfloor>x\<rfloor> else \<lceil>x\<rceil>)"

text \<open>Integer \<open>/\<close> and \<open>%\<close> of Go truncate towards zero; the divisor is non-zero
  wherever the model calls them (a zero divisor is a panic, modelled at the call).\<close>

definition go_quot :: "int \<Rightarrow> int \<Rightarrow> int" where
  "go_quot a b = sgn a * sgn b * (\<bar>a\<bar> div \<bar>b\<bar>)"

definition go_rem :: "int \<Rightarrow> int \<Rightarrow> int" where
  "go_rem a b = sgn a * (\<bar>a\<bar> mod \<bar>b\<bar>)"

text \<open>\<open>rand.Intn(n)\<close>: some value below \<open>n\<close>, determined by a raw draw.\<close>

definition Intn :: "nat \<Rightarrow> nat \<Rightarrow> nat" where
  "Intn n raw = raw mod n"

subsection \<open>Formatting with \<open>%d\<close>\<close>

definition digit_char :: "nat \<Rightarrow> char" where
  "digit_char d = ''0123456789'' ! d"

function decimal :: "nat \<Rightarrow> string" where
  "decimal n = (if n < 10 then [digit_char n] else decimal (n div 10) @ [digit_char (n mod 10)])"
  by pat_completeness auto
termination
  by (relation "measure (\<lambda>n. n)") auto

declare decimal.simps [simp del]

definition fmt_d :: "int \<Rightarrow> string" where
  "fmt_d i = (if i < 0 then CHR ''-'' # decimal (nat (- i)) else decimal (nat i))"

section \<open>Data model (fish.go, manager)\<close>

text \<open>
  The structs keep their field names. Two fields are renamed because a name can be declared
  once: \<open>Bubble.Char\<close> is \<open>Char_str\<close>, and the \<open>ID\<close> and \<open>Username\<close> of a
  \<open>Connection\<close> are \<open>ConnID\<close> and \<open>ConnUsername\<close>. Pointers to bubbles and fish are
  never shared between two owners, so the pointed-to structs are stored by value.
\<close>

record TerminalConfig =
  Columns :: int
  Rows :: int
  CellWidth :: int
  CellHeight :: int

record Bubble =
  X :: real
  Y :: real
  Char_str :: string
  Age :: int
  PrevCol :: int
  PrevRow :: int

record Fish =
  ID :: nat
  OwnerID :: nat
  PlacementID :: nat
  PosX :: real
  PosY :: real
  VelX :: real
  VelY :: real
  BobbingTime :: real
  Bubbles :: "Bubble list"
  LastImageID :: int
  BubblesToClear :: "(int \<times> int) list"
  Username :: string
  Color :: string

definition ImagePixelWidth :: real where "ImagePixelWidth = 64"
definition ImagePixelHeight :: real where "ImagePixelHeight = 36"
definition BobbingAmplitude :: real where "BobbingAmplitude = 12"
definition BobbingFrequency :: real where "BobbingFrequency = 4.8"
definition BubbleSpawnRate :: real where "BubbleSpawnRate = 0.06"
definition BubbleSpeed :: real where "BubbleSpeed = 240"

text \<open>The glyphs \<open>\<degree>\<close>, \<open>o\<close>, \<open>O\<close> and the bullet, as the UTF-8 bytes of the Go string literals.\<close>

definition bubbleChars :: "string list" where
  "bubbleChars = [[CHR 0xC2, CHR 0xB0], ''o'', ''O'', [CHR 0xE2, CHR 0x80, CHR 0xA2]]"

section \<open>Physics: \<open>Fish.Update\<close>\<close>

definition termPixelWidth :: "TerminalConfig \<Rightarrow> real" where
  "termPixelWidth config = real_of_int (int64_wrap (Columns config * CellWidth config))"

definition termPixelHeight :: "TerminalConfig \<Rightarrow> real" where
  "termPixelHeight config = real_of_int (int64_wrap (Rows config * CellHeight config))"

text \<open>
  The height left for the fish, as \<open>Update\<close> computes it in floats: the tile height is the
  float quotient \<open>(48 + CellHeight - 1) / CellHeight\<close>, not its integer ceiling.
\<close>

definition usableHeight :: "TerminalConfig \<Rightarrow> real" where
  "usableHeight config =
    (let tilePixelSize = 48;
         tileHeight = (tilePixelSize + real_of_int (CellHeight config) - 1) / real_of_int (CellHeight config);
         floorHeight = tileHeight * real_of_int (CellHeight config);
         statusHeight = real_of_int (CellHeight config)
     in termPixelHeight config - floorHeight - statusHeight)"

definition spawnBubble :: "nat \<Rightarrow> Fish \<Rightarrow> Fish" where
  "spawnBubble glyphDraw f =
    f\<lparr>Bubbles := Bubbles f @
      [\<lparr>X = PosX f + ImagePixelWidth / 2, Y = PosY f - 2,
        Char_str = bubbleChars ! Intn (length bubbleChars) glyphDraw,
        Age = 0, PrevCol = 0, PrevRow = 0\<rparr>]\<rparr>"

text \<open>The loop of \<open>updateBubbles\<close>: the bubbles still on screen, and the cells to clear.\<close>

fun updateBubbles_loop ::
  "real \<Rightarrow> Bubble list \<Rightarrow> Bubble list \<Rightarrow> (int \<times> int) list \<Rightarrow> Bubble list \<times> (int \<times> int) list" where
  "updateBubbles_loop deltaTime [] activeBubbles toClear = (activeBubbles, toClear)"
| "updateBubbles_loop deltaTime (bubble # rest) activeBubbles toClear =
    (let b = bubble\<lparr>Y := Y bubble - BubbleSpeed * deltaTime, Age := Age bubble + 1\<rparr>
     in if Y b \<ge> 0 then updateBubbles_loop deltaTime rest (activeBubbles @ [b]) toClear
        else if PrevCol b > 0 \<and> PrevRow b > 0
          then updateBubbles_loop deltaTime rest activeBubbles (toClear @ [(PrevRow b, PrevCol b)])
          else updateBubbles_loop deltaTime rest activeBubbles toClear)"

definition updateBubbles :: "TerminalConfig \<Rightarrow> real \<Rightarrow> Fish \<Rightarrow> Fish" where
  "updateBubbles config deltaTime f =
    (case updateBubbles_loop deltaTime (Bubbles f) [] (BubblesToClear f) of
      (activeBubbles, toClear) \<Rightarrow> f\<lparr>Bubbles := activeBubbles, BubblesToClear := toClear\<rparr>)"

text \<open>
  \<open>Update config deltaTime spawnDraw glyphDraw f\<close>: one physics tick. \<open>spawnDraw\<close> is the
  value of \<open>rand.Float64()\<close>, \<open>glyphDraw\<close> the draw behind \<open>rand.Intn\<close> in \<open>spawnBubble\<close>.
  When \<open>CellHeight\<close> is zero the float quotient is infinite and \<open>floorHeight\<close> is NaN, so
  the comparison against \<open>usableHeight\<close> is false: this is the guard of the floor branch.
\<close>

definition Update :: "TerminalConfig \<Rightarrow> real \<Rightarrow> real \<Rightarrow> nat \<Rightarrow> Fish \<Rightarrow> Fish" where
  "Update config deltaTime spawnDraw glyphDraw f =
    (let f1 = f\<lparr>PosX := PosX f + VelX f * deltaTime, PosY := PosY f + VelY f * deltaTime\<rparr>;
         f2 = (if PosX f1 + ImagePixelWidth > termPixelWidth config
                 then f1\<lparr>VelX := - \<bar>VelX f1\<bar>, PosX := termPixelWidth config - ImagePixelWidth\<rparr>
               else if PosX f1 < 0 then f1\<lparr>VelX := \<bar>VelX f1\<bar>, PosX := 0\<rparr>
               else f1);
         f3 = (if CellHeight config \<noteq> 0 \<and> PosY f2 + ImagePixelHeight > usableHeight config
                 then f2\<lparr>VelY := - \<bar>VelY f2\<bar>, PosY := usableHeight config - ImagePixelHeight\<rparr>
               else if PosY f2 < 0 then f2\<lparr>VelY := \<bar>VelY f2\<bar>, PosY := 0\<rparr>
               else f2);
         f4 = f3\<lparr>BobbingTime := BobbingTime f3 + BobbingFrequency * deltaTime\<rparr>;
         f5 = (if spawnDraw < BubbleSpawnRate * deltaTime then spawnBubble glyphDraw f4 else f4)
     in updateBubbles config deltaTime f5)"

section \<open>Bobbing, collision and click (fish.go)\<close>

text \<open>
  The bob offset, computed by the same \<open>switch\<close> in \<open>Render\<close> and in \<open>CheckCollision\<close>:
  \<open>step := int(f.BobbingTime) % 4\<close>, and no case of the switch matches a negative step.
\<close>

definition bobbingOffset :: "real \<Rightarrow> real" where
  "bobbingOffset bobbingTime =
    (let step = go_rem (go_int bobbingTime) 4
     in if step = 0 then 0
        else if step = 1 then BobbingAmplitude / 2
        else if step = 2 then BobbingAmplitude
        else if step = 3 then BobbingAmplitude / 2
        else 0)"

text \<open>In \<open>CheckCollision\<close> the sprite size is added to integers: 64 and 36.\<close>

definition CheckCollision :: "Fish \<Rightarrow> int \<Rightarrow> int \<Rightarrow> bool" where
  "CheckCollision f mouseX mouseY =
    (let finalY = PosY f + bobbingOffset (BobbingTime f)
     in mouseX \<ge> go_int (PosX f) \<and> mouseX \<le> go_int (PosX f) + 64 \<and>
        mouseY \<ge> go_int finalY \<and> mouseY \<le> go_int finalY + 36)"

definition angles :: "real list" where
  "angles = [90, 180, 260]"

text \<open>
  \<open>OnClick jitter glyph angleDraw f\<close>: \<open>jitter i\<close> and \<open>glyph i\<close> are the draws of
  \<open>rand.Float64()\<close> and \<open>rand.Intn\<close> in round \<open>i\<close> of the bubble loop, \<open>angleDraw\<close> the
  draw that picks the angle.
\<close>

definition click_bubble :: "(nat \<Rightarrow> real) \<Rightarrow> (nat \<Rightarrow> nat) \<Rightarrow> Fish \<Rightarrow> nat \<Rightarrow> Bubble" where
  "click_bubble jitter glyph f i =
    \<lparr>X = PosX f + 32 + (jitter i - 0.5) * 20,
     Y = PosY f - 2 - real (i * 5),
     Char_str = bubbleChars ! Intn (length bubbleChars) (glyph i),
     Age = 0, PrevCol = 0, PrevRow = 0\<rparr>"

definition OnClick :: "(nat \<Rightarrow> real) \<Rightarrow> (nat \<Rightarrow> nat) \<Rightarrow> nat \<Rightarrow> Fish \<Rightarrow> Fish" where
  "OnClick jitter glyph angleDraw f =
    (let f1 = f\<lparr>Bubbles := Bubbles f @ map (click_bubble jitter glyph f) [0..<3]\<rparr>;
         randomAngle = angles ! Intn (length angles) angleDraw;
         radians = randomAngle * pi / 180;
         newVelX = VelX f1 * cos radians - VelY f1 * sin radians;
         newVelY = VelX f1 * sin radians + VelY f1 * cos radians
     in f1\<lparr>VelX := newVelX, VelY := newVelY\<rparr>)"

section \<open>Render buffer (update buffer of the aquarium package)\<close>

record UpdateBuffer =
  commands :: "string list"

definition NewUpdateBuffer :: UpdateBuffer where
  "NewUpdateBuffer = \<lparr>commands = []\<rparr>"

definition ESC :: char where
  "ESC = CHR 0x1B"

text \<open>The string terminator of a graphics command: escape, backslash.\<close>

definition ST :: string where
  "ST = [ESC, CHR 0x5C]"

definition cursor_to :: "int \<Rightarrow> int \<Rightarrow> string" where
  "cursor_to row col = ESC # ''['' @ fmt_d row @ '';'' @ fmt_d col @ ''H''"

definition AddClearCell :: "int \<Rightarrow> int \<Rightarrow> UpdateBuffer \<Rightarrow> UpdateBuffer" where
  "AddClearCell row col b = b\<lparr>commands := commands b @ [cursor_to row col @ '' '']\<rparr>"

definition AddText :: "int \<Rightarrow> int \<Rightarrow> string \<Rightarrow> UpdateBuffer \<Rightarrow> UpdateBuffer" where
  "AddText row col text b = b\<lparr>commands := commands b @ [cursor_to row col @ text]\<rparr>"

definition placement_command :: "int \<Rightarrow> nat \<Rightarrow> int \<Rightarrow> int \<Rightarrow> int \<Rightarrow> int \<Rightarrow> string" where
  "placement_command imageID placementID width height xOffset yOffset =
    ESC # ''_Ga=p,i='' @ fmt_d imageID @ '',p='' @ decimal placementID @
    '',c='' @ fmt_d width @ '',r='' @ fmt_d height @
    '',C=1,X='' @ fmt_d xOffset @ '',Y='' @ fmt_d yOffset @ '',q=1'' @ ST"

definition AddFishPlacement ::
  "int \<Rightarrow> int \<Rightarrow> int \<Rightarrow> nat \<Rightarrow> int \<Rightarrow> int \<Rightarrow> int \<Rightarrow> int \<Rightarrow> UpdateBuffer \<Rightarrow> UpdateBuffer" where
  "AddFishPlacement row col imageID placementID width height xOffset yOffset b =
    (let b1 = b\<lparr>commands := commands b @ [cursor_to row col]\<rparr>
     in b1\<lparr>commands := commands b1 @
          [placement_command imageID placementID width height xOffset yOffset]\<rparr>)"

definition delete_command :: "int \<Rightarrow> nat \<Rightarrow> string" where
  "delete_command imageID placementID =
    ESC # ''_Ga=d,d=i,i='' @ fmt_d imageID @ '',p='' @ decimal placementID @ '',q=1'' @ ST"

definition AddDeletePlacement :: "int \<Rightarrow> nat \<Rightarrow> UpdateBuffer \<Rightarrow> UpdateBuffer" where
  "AddDeletePlacement imageID placementID b =
    b\<lparr>commands := commands b @ [delete_command imageID placementID]\<rparr>"

definition String :: "UpdateBuffer \<Rightarrow> string" where
  "String b = concat (commands b)"

section \<open>\<open>Fish.Render\<close>\<close>

datatype panic = IntegerDivideByZero

text \<open>The bubble loop of \<open>Render\<close>: the bubbles with their recorded cells, and the buffer.\<close>

fun render_bubbles :: "TerminalConfig \<Rightarrow> Bubble list \<Rightarrow> UpdateBuffer \<Rightarrow> Bubble list \<times> UpdateBuffer" where
  "render_bubbles config [] buf = ([], buf)"
| "render_bubbles config (bubble # rest) buf =
    (let buf1 = (if PrevCol bubble > 0 \<and> PrevRow bubble > 0
                   then AddClearCell (PrevRow bubble) (PrevCol bubble) buf else buf);
         bubbleCol = go_int (X bubble / real_of_int (CellWidth config)) + 1;
         bubbleRow = go_int (Y bubble / real_of_int (CellHeight config)) + 1
     in if bubbleCol \<ge> 1 \<and> bubbleCol \<le> Columns config \<and> bubbleRow \<ge> 1 \<and> bubbleRow \<le> Rows config
        then (case render_bubbles config rest (AddText bubbleRow bubbleCol (Char_str bubble) buf1) of
                (bs, buf2) \<Rightarrow> (bubble\<lparr>PrevCol := bubbleCol, PrevRow := bubbleRow\<rparr> # bs, buf2))
        else (case render_bubbles config rest buf1 of
                (bs, buf2) \<Rightarrow> (bubble # bs, buf2)))"

text \<open>The sprite variant: image 2 faces right, image 1 faces left.\<close>

definition imageID_of :: "Fish \<Rightarrow> int" where
  "imageID_of f = (if VelX f > 0 then 2 else 1)"

text \<open>
  \<open>Render buf config f\<close> returns the fish and the buffer as the call leaves them. The
  integer remainders \<open>int(f.PosX) % config.CellWidth\<close> and \<open>int(finalY) % config.CellHeight\<close>
  come before the bubble loop, so a zero cell size panics before anything else is read.
\<close>

definition Render :: "UpdateBuffer \<Rightarrow> TerminalConfig \<Rightarrow> Fish \<Rightarrow> panic + (Fish \<times> UpdateBuffer)" where
  "Render buf config f =
    (let buf1 = foldl (\<lambda>b (row, col). AddClearCell row col b) buf (BubblesToClear f);
         f1 = f\<lparr>BubblesToClear := []\<rparr>
     in if CellWidth config = 0 \<or> CellHeight config = 0 then Inl IntegerDivideByZero
        else
          (let finalY = PosY f1 + bobbingOffset (BobbingTime f1);
               col = go_int (PosX f1 / real_of_int (CellWidth config)) + 1;
               xOffset = go_rem (go_int (PosX f1)) (CellWidth config);
               row = go_int (finalY / real_of_int (CellHeight config)) + 1;
               yOffset = go_rem (go_int finalY) (CellHeight config)
           in case render_bubbles config (Bubbles f1) buf1 of
                (bs, buf2) \<Rightarrow>
                  (let f2 = f1\<lparr>Bubbles := bs\<rparr>;
                       imageID = imageID_of f2;
                       buf3 = (if LastImageID f2 \<noteq> 0 \<and> LastImageID f2 \<noteq> imageID
                                 then AddDeletePlacement (LastImageID f2) (PlacementID f2) buf2
                               else buf2);
                       f3 = f2\<lparr>LastImageID := imageID\<rparr>;
                       imageCellWidth = go_quot (64 + CellWidth config - 1) (CellWidth config);
                       imageCellHeight = go_quot (36 + CellHeight config - 1) (CellHeight config)
                   in Inr (f3, AddFishPlacement row col imageID (PlacementID f3)
                                 imageCellWidth imageCellHeight xOffset yOffset buf3))))"

section \<open>The aquarium manager\<close>

record Connection =
  ConnID :: nat
  FishIDs :: "nat list"
  ConnUsername :: string

record Aquarium =
  FloorTileID :: int
  StartTime :: real
  FloorRendered :: bool
  LastStatusUpdate :: real

text \<open>
  The manager under its mutex. \<open>animationStop\<close> is \<open>True\<close> when the stop channel is not
  \<open>nil\<close>, that is, when the animation loop has been started and not stopped.
\<close>

record Manager =
  fish :: "(nat \<times> Fish) list"
  connections :: "(nat \<times> Connection) list"
  termConfig :: "TerminalConfig option"
  animationStop :: bool
  fishCounter :: nat
  connCounter :: nat
  debugMode :: bool
  lastUpdate :: real
  aquarium :: "Aquarium option"

definition NewManager :: Manager where
  "NewManager = \<lparr>fish = [], connections = [], termConfig = None, animationStop = False,
     fishCounter = 0, connCounter = 0, debugMode = False, lastUpdate = 0, aquarium = None\<rparr>"

definition atomic_add1 :: "nat \<Rightarrow> nat" where
  "atomic_add1 n = (n + 1) mod 2 ^ 64"

definition AddConnection :: "string \<Rightarrow> nat \<Rightarrow> real \<Rightarrow> Manager \<Rightarrow> nat \<times> Manager" where
  "AddConnection username floorDraw now m =
    (let connID = atomic_add1 (connCounter m);
         conn = \<lparr>ConnID = connID, FishIDs = [], ConnUsername = username\<rparr>;
         m1 = m\<lparr>connCounter := connID, connections := AList.update connID conn (connections m)\<rparr>;
         isFirst = (length (connections m1) = 1)
     in (connID,
         if isFirst
         then m1\<lparr>aquarium := Some \<lparr>FloorTileID = int (Intn 6 floorDraw), StartTime = now,
                                     FloorRendered = False, LastStatusUpdate = now\<rparr>\<rparr>
         else m1))"

text \<open>
  The last unregister closes the stop channel and then calls \<open>animationWg.Wait()\<close> while it
  still holds \<open>m.mu\<close>. The wait ends only if the animation goroutine returns from
  \<open>animationLoop\<close>, and that goroutine takes \<open>m.mu\<close> several times in every tick (the read
  lock at the start of \<open>updateAndBroadcast\<close>, the locks around the copy and around the
  floor, the read lock of \<open>renderStatus\<close>). So the outcome depends on where the goroutine
  stands when the channel is closed:
  \<^item> \<open>IdleInSelect\<close>: blocked in the \<open>select\<close> with no tick ready (or finishing the
    lock-free tail of a tick and then reaching it); it receives the stop signal and returns;
  \<^item> \<open>TickReady picksStop\<close>: in the \<open>select\<close> with a tick ready as well; the runtime picks
    one of the two ready cases, and after picking the tick the goroutine blocks on \<open>m.mu\<close>;
  \<^item> \<open>InsideTick\<close>: inside \<open>updateAndBroadcast\<close> before one of its acquisitions of \<open>m.mu\<close>;
    it blocks there.
  A call that blocks never reaches the assignments after the wait; \<open>BlocksForever\<close> carries
  the state in which it is stuck (with \<open>m.mu\<close> held). \<open>Stop\<close>, in contrast, releases the lock
  before it waits.
\<close>

datatype animation = IdleInSelect | TickReady bool | InsideTick

fun animation_exits :: "animation \<Rightarrow> bool" where
  "animation_exits IdleInSelect = True"
| "animation_exits (TickReady picksStop) = picksStop"
| "animation_exits InsideTick = False"

datatype 'a call = Returns 'a | BlocksForever 'a

text \<open>\<open>createPoofEffect\<close> has an empty body in the source, so the loop only deletes.\<close>

definition RemoveConnection :: "nat \<Rightarrow> animation \<Rightarrow> Manager \<Rightarrow> Manager call" where
  "RemoveConnection connID anim m =
    (case map_of (connections m) connID of
       None \<Rightarrow> Returns m
     | Some conn \<Rightarrow>
        (let m1 = m\<lparr>fish := foldl (\<lambda>fs fishID. AList.delete fishID fs) (fish m) (FishIDs conn)\<rparr>;
             m2 = m1\<lparr>connections := AList.delete connID (connections m1)\<rparr>
         in if length (connections m2) = 0 \<and> animationStop m2
            then (if animation_exits anim
                  then Returns (m2\<lparr>animationStop := False, termConfig := None, aquarium := None,
                                   fishCounter := 0\<rparr>)
                  else BlocksForever m2)
            else Returns m2))"

text \<open>
  \<open>Stop\<close>, the other place that ends the animation: it closes the channel, sets the field to
  \<open>nil\<close> and releases \<open>m.mu\<close> before it waits, and the wait is bounded by two seconds. So it
  returns wherever the animation goroutine stands. (It leaves \<open>m.aquarium\<close> as it is.)
\<close>

definition Stop :: "animation \<Rightarrow> Manager \<Rightarrow> Manager call" where
  "Stop anim m =
    (let m1 = (if animationStop m then m\<lparr>animationStop := False\<rparr> else m)
     in Returns (m1\<lparr>fish := [], connections := [], termConfig := None,
                    fishCounter := 0, connCounter := 0\<rparr>))"

definition SetTerminalConfig :: "TerminalConfig \<Rightarrow> Manager \<Rightarrow> Manager" where
  "SetTerminalConfig config m = m\<lparr>termConfig := Some config\<rparr>"

definition GetTerminalConfig :: "Manager \<Rightarrow> TerminalConfig option" where
  "GetTerminalConfig m = termConfig m"

definition StartAnimation :: "real \<Rightarrow> Manager \<Rightarrow> Manager" where
  "StartAnimation now m =
    (if animationStop m then m else m\<lparr>animationStop := True, lastUpdate := now\<rparr>)"

text \<open>
  \<open>NewFish\<close>; \<open>draw i\<close> is the value of the \<open>i\<close>-th call of \<open>rand.Float64()\<close>. The tile
  height is an integer quotient by \<open>cellHeight\<close>, which panics when that is zero.
\<close>

definition NewFish ::
  "nat \<Rightarrow> nat \<Rightarrow> int \<Rightarrow> int \<Rightarrow> int \<Rightarrow> int \<Rightarrow> string \<Rightarrow> string \<Rightarrow> (nat \<Rightarrow> real) \<Rightarrow> panic + Fish" where
  "NewFish ident ownerID termWidth termHeight cellWidth cellHeight username color draw =
    (if cellHeight = 0 then Inl IntegerDivideByZero
     else
      (let tilePixelSize = 48;
           tileHeight = go_quot (tilePixelSize + cellHeight - 1) cellHeight;
           floorHeight = tileHeight * cellHeight;
           statusHeight = cellHeight;
           usable = termHeight - floorHeight - statusHeight
       in Inr \<lparr>ID = ident, OwnerID = ownerID, PlacementID = ident,
                PosX = draw 0 * real_of_int (termWidth - 64),
                PosY = draw 1 * real_of_int (usable - 36),
                VelX = (draw 2 - 0.5) * 4.8 * real_of_int cellWidth,
                VelY = (draw 3 - 0.5) * 1.2 * real_of_int cellHeight,
                BobbingTime = draw 4 * 100,
                Bubbles = [], LastImageID = 0, BubblesToClear = [],
                Username = username, Color = color\<rparr>))"

text \<open>
  \<open>AddFish\<close>: the requested count is overwritten with 1, so the loop body runs once. The
  manager of this revision passes the connection's user name; the colour of the newer
  \<open>NewFish\<close> is an argument here.
\<close>

definition AddFish :: "nat \<Rightarrow> int \<Rightarrow> string \<Rightarrow> (nat \<Rightarrow> real) \<Rightarrow> Manager \<Rightarrow> panic + (nat list \<times> Manager)" where
  "AddFish connID count color draw m =
    (case map_of (connections m) connID of
       None \<Rightarrow> Inr ([], m)
     | Some conn \<Rightarrow>
        (case termConfig m of
           None \<Rightarrow> Inr ([], m)
         | Some tc \<Rightarrow>
            (let termWidth = int64_wrap (Columns tc * CellWidth tc);
                 termHeight = int64_wrap (Rows tc * CellHeight tc);
                 fishID = atomic_add1 (fishCounter m)
             in case NewFish fishID connID termWidth termHeight (CellWidth tc) (CellHeight tc)
                       (ConnUsername conn) color draw of
                  Inl p \<Rightarrow> Inl p
                | Inr f \<Rightarrow>
                    Inr ([fishID],
                         m\<lparr>fishCounter := fishID,
                           fish := AList.update fishID f (fish m),
                           connections := AList.update connID
                             (conn\<lparr>FishIDs := FishIDs conn @ [fishID]\<rparr>) (connections m)\<rparr>))))"

text \<open>
  The loop of \<open>HandleMouseClick\<close> over the fish table, in iteration order: a colliding
  fish of another owner is skipped with \<open>continue\<close>, the first colliding fish of the
  clicking connection is clicked and ends the loop with \<open>break\<close>.
\<close>

fun click_loop ::
  "nat \<Rightarrow> int \<Rightarrow> int \<Rightarrow> (nat \<Rightarrow> real) \<Rightarrow> (nat \<Rightarrow> nat) \<Rightarrow> nat \<Rightarrow> (nat \<times> Fish) list \<Rightarrow> (nat \<times> Fish) list" where
  "click_loop connID mouseX mouseY jitter glyph angleDraw [] = []"
| "click_loop connID mouseX mouseY jitter glyph angleDraw ((k, f) # rest) =
    (if CheckCollision f mouseX mouseY
     then (if OwnerID f \<noteq> connID
           then (k, f) # click_loop connID mouseX mouseY jitter glyph angleDraw rest
           else (k, OnClick jitter glyph angleDraw f) # rest)
     else (k, f) # click_loop connID mouseX mouseY jitter glyph angleDraw rest)"

definition HandleMouseClick ::
  "nat \<Rightarrow> int \<Rightarrow> int \<Rightarrow> int \<Rightarrow> (nat \<Rightarrow> real) \<Rightarrow> (nat \<Rightarrow> nat) \<Rightarrow> nat \<Rightarrow> Manager \<Rightarrow> Manager" where
  "HandleMouseClick connID button col row jitter glyph angleDraw m =
    (case termConfig m of
       None \<Rightarrow> m
     | Some tc \<Rightarrow>
        if button \<noteq> 0 then m
        else
          (let mouseX = int64_wrap ((col - 1) * CellWidth tc);
               mouseY = int64_wrap ((row - 1) * CellHeight tc)
           in m\<lparr>fish := click_loop connID mouseX mouseY jitter glyph angleDraw (fish m)\<rparr>))"

section \<open>The connection handler (handler.go)\<close>

record Handler =
  connID :: nat
  username :: string
  termType :: string
  termColumns :: int
  termRows :: int
  cellWidth :: int
  cellHeight :: int
  running :: bool

definition New :: "string \<Rightarrow> Handler" where
  "New user = \<lparr>connID = 0, username = user, termType = [], termColumns = 80, termRows = 24,
     cellWidth = 8, cellHeight = 16, running = False\<rparr>"

definition SetTerminal :: "string \<Rightarrow> 32 word \<Rightarrow> 32 word \<Rightarrow> Handler \<Rightarrow> Handler" where
  "SetTerminal tt columns rows h =
    h\<lparr>termType := tt, termColumns := uint columns, termRows := uint rows\<rparr>"

definition Resize :: "32 word \<Rightarrow> 32 word \<Rightarrow> Handler \<Rightarrow> Handler" where
  "Resize columns rows h = h\<lparr>termColumns := uint columns, termRows := uint rows\<rparr>"

text \<open>
  What the \<open>select\<close> of \<open>detectTerminalAndInit\<close> receives: the slice returned by
  \<open>readTerminalResponse\<close> (\<open>[pixelWidth, pixelHeight]\<close>, or \<open>nil\<close>, the empty list, after
  a read error), or the two-second timer.
\<close>

datatype detection = Response "int list" | Timeout

definition detect_select :: "detection \<Rightarrow> Handler \<Rightarrow> Handler" where
  "detect_select outcome h =
    (case outcome of
       Response dims \<Rightarrow>
         if length dims = 2
         then (let pixelWidth = dims ! 0; pixelHeight = dims ! 1
               in if termColumns h > 0 \<and> termRows h > 0
                  then h\<lparr>cellWidth := go_quot pixelWidth (termColumns h),
                         cellHeight := go_quot pixelHeight (termRows h)\<rparr>
                  else h)
         else h
     | Timeout \<Rightarrow> h)"

text \<open>
  \<open>initializeAquarium\<close>. The image upload between the configuration and \<open>AddFish\<close> only
  writes to the session's channel; it is modelled on its own below (\<open>uploadImage\<close>).
\<close>

definition initializeAquarium ::
  "real \<Rightarrow> string \<Rightarrow> (nat \<Rightarrow> real) \<Rightarrow> Handler \<Rightarrow> Manager \<Rightarrow> panic + (nat list \<times> Manager)" where
  "initializeAquarium now color draw h m =
    (let config = \<lparr>Columns = termColumns h, Rows = termRows h,
                    CellWidth = cellWidth h, CellHeight = cellHeight h\<rparr>;
         m1 = (if GetTerminalConfig m = None
               then StartAnimation now (SetTerminalConfig config m) else m)
     in AddFish (connID h) 1 color draw m1)"

definition detectTerminalAndInit ::
  "detection \<Rightarrow> real \<Rightarrow> string \<Rightarrow> (nat \<Rightarrow> real) \<Rightarrow> Handler \<Rightarrow> Manager
    \<Rightarrow> panic + (Handler \<times> nat list \<times> Manager)" where
  "detectTerminalAndInit outcome now color draw h m =
    (let h1 = detect_select outcome h
     in case initializeAquarium now color draw h1 m of
          Inl p \<Rightarrow> Inl p
        | Inr (fishAdded, m1) \<Rightarrow> Inr (h1, fishAdded, m1))"

text \<open>\<open>Start\<close>: register the connection, then detect and initialise.\<close>

definition Start ::
  "nat \<Rightarrow> detection \<Rightarrow> real \<Rightarrow> string \<Rightarrow> (nat \<Rightarrow> real) \<Rightarrow> Handler \<Rightarrow> Manager
    \<Rightarrow> panic + (Handler \<times> nat list \<times> Manager)" where
  "Start floorDraw outcome now color draw h m =
    (if running h then Inr (h, [], m)
     else case AddConnection (username h) floorDraw now m of
            (cid, m1) \<Rightarrow>
              detectTerminalAndInit outcome now color draw (h\<lparr>running := True, connID := cid\<rparr>) m1)"

section \<open>Image upload (handler.go)\<close>

text \<open>
  \<open>base64.StdEncoding.EncodeToString\<close> is the standard library's encoder (RFC 4648, with
  padding), written out here over bytes.
\<close>

definition encodeStd :: string where
  "encodeStd = ''ABCDEFGHIJKLMNOPQRSTUVWXYZabcdefghijklmnopqrstuvwxyz0123456789+/''"

definition b64 :: "nat \<Rightarrow> char" where
  "b64 v = encodeStd ! (v mod 64)"

fun EncodeToString :: "8 word list \<Rightarrow> string" where
  "EncodeToString (a # b # c # rest) =
    (let v = unat a * 65536 + unat b * 256 + unat c
     in [b64 (v div 262144), b64 (v div 4096), b64 (v div 64), b64 v] @ EncodeToString rest)"
| "EncodeToString [a, b] =
    (let v = unat a * 65536 + unat b * 256
     in [b64 (v div 262144), b64 (v div 4096), b64 (v div 64), CHR ''=''])"
| "EncodeToString [a] =
    (let v = unat a * 65536
     in [b64 (v div 262144), b64 (v div 4096), CHR ''='', CHR ''=''])"
| "EncodeToString [] = []"

definition chunkSize :: nat where
  "chunkSize = 4096"

definition btoi :: "bool \<Rightarrow> int" where
  "btoi b = (if b then 1 else 0)"

text \<open>The slice expression \<open>s[i:j]\<close> for \<open>i \<le> j \<le> len(s)\<close>.\<close>

definition slice :: "'a list \<Rightarrow> nat \<Rightarrow> nat \<Rightarrow> 'a list" where
  "slice s i j = take (j - i) (drop i s)"

text \<open>The loop of \<open>uploadImage\<close> from index \<open>i\<close>: the byte strings written to the channel.\<close>

function upload_loop :: "string \<Rightarrow> int \<Rightarrow> nat \<Rightarrow> string list" where
  "upload_loop base64Data imageID i =
    (if i < length base64Data
     then (let chunk = slice base64Data i (min (i + chunkSize) (length base64Data));
               isFirst = (i = 0);
               hasMore = (i + chunkSize < length base64Data);
               command = (if isFirst
                          then ''a=t,f=100,i='' @ fmt_d imageID @ '',m='' @ fmt_d (btoi hasMore) @ '',q=1''
                          else ''m='' @ fmt_d (btoi hasMore))
           in (ESC # ''_G'' @ command @ '';'' @ chunk @ ST)
              # upload_loop base64Data imageID (i + chunkSize))
     else [])"
  by pat_completeness auto
termination
  by (relation "measure (\<lambda>(base64Data, imageID, i). length base64Data - i)")
     (auto simp: chunkSize_def)

declare upload_loop.simps [simp del]

definition uploadImage :: "8 word list \<Rightarrow> int \<Rightarrow> string list" where
  "uploadImage data imageID = upload_loop (EncodeToString data) imageID 0"

section \<open>Sequences of ticks and clicks\<close>

text \<open>The Euclidean norm of the velocity, and the two ways the code changes a velocity.\<close>

definition speed :: "Fish \<Rightarrow> real" where
  "speed f = sqrt ((VelX f)\<^sup>2 + (VelY f)\<^sup>2)"

datatype event = Tick TerminalConfig real real nat | Click "nat \<Rightarrow> real" "nat \<Rightarrow> nat" nat

fun apply_event :: "Fish \<Rightarrow> event \<Rightarrow> Fish" where
  "apply_event f (Tick config deltaTime spawnDraw glyphDraw) = Update config deltaTime spawnDraw glyphDraw f"
| "apply_event f (Click jitter glyph angleDraw) = OnClick jitter glyph angleDraw f"

text \<open>A tick whose elapsed time is not negative, as \<open>now.Sub(m.lastUpdate)\<close> is; any click.\<close>

fun nonneg_tick :: "event \<Rightarrow> bool" where
  "nonneg_tick (Tick config deltaTime spawnDraw glyphDraw) = (0 \<le> deltaTime)"
| "nonneg_tick (Click jitter glyph angleDraw) = True"

section \<open>Example states\<close>

definition still_fish :: Fish where
  "still_fish = \<lparr>ID = 1, OwnerID = 1, PlacementID = 1, PosX = 0, PosY = 0, VelX = 0, VelY = 0,
     BobbingTime = 0, Bubbles = [], LastImageID = 0, BubblesToClear = [], Username = ''u'', Color = ''c''\<rparr>"

definition cfg_80x24 :: TerminalConfig where
  "cfg_80x24 = \<lparr>Columns = 80, Rows = 24, CellWidth = 8, CellHeight = 16\<rparr>"


definition half_draw :: "nat \<Rightarrow> real" where
  "half_draw i = 1 / 2"

definition glyph_draw :: "nat \<Rightarrow> nat" where
  "glyph_draw i = 1"

text \<open>Two fish at the origin: the first in iteration order belongs to connection 2, the
  second to connection 1.\<close>

definition click_manager :: Manager where
  "click_manager = NewManager\<lparr>
     fish := [(1, still_fish\<lparr>ID := 1, PlacementID := 1, OwnerID := 2\<rparr>),
              (2, still_fish\<lparr>ID := 2, PlacementID := 2, OwnerID := 1\<rparr>)],
     termConfig := Some cfg_80x24\<rparr>"

definition result_manager :: "panic + (Handler \<times> nat list \<times> Manager) \<Rightarrow> Manager option" where
  "result_manager r = (case r of Inr (h, ids, m) \<Rightarrow> Some m | Inl p \<Rightarrow> None)"

text \<open>The manager after the first session has started and its detection has timed out.\<close>

definition epoch_manager :: Manager where
  "epoch_manager = the (result_manager (Start 0 Timeout 0 ''c'' half_draw (New ''u'') NewManager))"

text \<open>
  The handler as \<open>Start\<close> finds it: built by \<open>New\<close>, then told the terminal of each pty
  request by \<open>SetTerminal\<close>.
\<close>

definition pty_handler :: "string \<Rightarrow> (string \<times> 32 word \<times> 32 word) list \<Rightarrow> Handler" where
  "pty_handler user ptys = foldl (\<lambda>h (tt, cols, rows). SetTerminal tt cols rows h) (New user) ptys"

section \<open>The invariant of the manager\<close>

text \<open>
  What the handler's use of the manager maintains: connection ids are distinct, every fish
  in the table is listed by a registered connection, a configuration is set only while
  the animation runs, and without a configuration there are no fish.
\<close>

definition manager_inv :: "Manager \<Rightarrow> bool" where
  "manager_inv m \<longleftrightarrow>
     distinct (map fst (connections m)) \<and>
     (\<forall>fid \<in> fst ` set (fish m).
        \<exists>cid c. map_of (connections m) cid = Some c \<and> fid \<in> set (FishIDs c)) \<and>
     (termConfig m \<noteq> None \<longrightarrow> animationStop m) \<and>
     (termConfig m = None \<longrightarrow> fish m = [] \<and> fishCounter m = 0)"

section \<open>Properties of the physics tick\<close>

lemma updateBubbles_fields [simp]:
  "PosX (updateBubbles c dt f) = PosX f" "PosY (updateBubbles c dt f) = PosY f"
  "VelX (updateBubbles c dt f) = VelX f" "VelY (updateBubbles c dt f) = VelY f"
  "BobbingTime (updateBubbles c dt f) = BobbingTime f"
  "LastImageID (updateBubbles c dt f) = LastImageID f"
  "PlacementID (updateBubbles c dt f) = PlacementID f"
  "OwnerID (updateBubbles c dt f) = OwnerID f"
  by (simp_all add: updateBubbles_def split: prod.split)

lemma spawnBubble_fields [simp]:
  "PosX (spawnBubble g f) = PosX f" "PosY (spawnBubble g f) = PosY f"
  "VelX (spawnBubble g f) = VelX f" "VelY (spawnBubble g f) = VelY f"
  "BobbingTime (spawnBubble g f) = BobbingTime f"
  "LastImageID (spawnBubble g f) = LastImageID f"
  "PlacementID (spawnBubble g f) = PlacementID f"
  "OwnerID (spawnBubble g f) = OwnerID f"
  by (simp_all add: spawnBubble_def)

lemma Update_PosX:
  "PosX (Update c dt r g f) =
    (if PosX f + VelX f * dt + 64 > termPixelWidth c then termPixelWidth c - 64
     else if PosX f + VelX f * dt < 0 then 0 else PosX f + VelX f * dt)"
  by (simp add: Update_def Let_def ImagePixelWidth_def)

lemma Update_VelX:
  "VelX (Update c dt r g f) =
    (if PosX f + VelX f * dt + 64 > termPixelWidth c then - \<bar>VelX f\<bar>
     else if PosX f + VelX f * dt < 0 then \<bar>VelX f\<bar> else VelX f)"
  by (simp add: Update_def Let_def ImagePixelWidth_def)

lemma Update_PosY:
  "PosY (Update c dt r g f) =
    (if CellHeight c \<noteq> 0 \<and> PosY f + VelY f * dt + 36 > usableHeight c then usableHeight c - 36
     else if PosY f + VelY f * dt < 0 then 0 else PosY f + VelY f * dt)"
  by (simp add: Update_def Let_def ImagePixelHeight_def)

lemma Update_VelY:
  "VelY (Update c dt r g f) =
    (if CellHeight c \<noteq> 0 \<and> PosY f + VelY f * dt + 36 > usableHeight c then - \<bar>VelY f\<bar>
     else if PosY f + VelY f * dt < 0 then \<bar>VelY f\<bar> else VelY f)"
  by (simp add: Update_def Let_def ImagePixelHeight_def)

lemma usableHeight_eq:
  "CellHeight c \<noteq> 0 \<Longrightarrow> usableHeight c = termPixelHeight c - 47 - 2 * real_of_int (CellHeight c)"
  by (simp add: usableHeight_def Let_def)

lemma OnClick_keeps [simp]:
  "LastImageID (OnClick j gl a f) = LastImageID f" "PlacementID (OnClick j gl a f) = PlacementID f"
  "OwnerID (OnClick j gl a f) = OwnerID f"
  by (simp_all add: OnClick_def Let_def)

lemma Update_keeps [simp]:
  "LastImageID (Update c dt r g f) = LastImageID f" "PlacementID (Update c dt r g f) = PlacementID f"
  "OwnerID (Update c dt r g f) = OwnerID f"
  by (simp_all add: Update_def Let_def)




text \<open>
  C5. For every fish whose x-position after the integration step \<open>PosX += VelX * deltaTime\<close>
  exceeds the right boundary (\<open>PosX + 64 > canvasWidth\<close>), when \<open>Update\<close> returns the
  horizontal velocity is \<open>\<le> 0\<close>, \<open>PosX\<close> equals \<open>canvasWidth - 64\<close> exactly, and the magnitude
  of the horizontal velocity is unchanged.
\<close>

theorem Update_right_wall_reflects:
  assumes "PosX f + VelX f * dt + ImagePixelWidth > termPixelWidth c"
  shows "VelX (Update c dt r g f) \<le> 0 \<and>
         PosX (Update c dt r g f) = termPixelWidth c - ImagePixelWidth \<and>
         \<bar>VelX (Update c dt r g f)\<bar> = \<bar>VelX f\<bar>"
  using assms by (simp add: Update_PosX Update_VelX ImagePixelWidth_def)

theorem Update_right_wall_reflects_witness:
  "PosX (still_fish\<lparr>PosX := 570, VelX := 10\<rparr>) + VelX (still_fish\<lparr>PosX := 570, VelX := 10\<rparr>) * 1
     + ImagePixelWidth > termPixelWidth cfg_80x24 \<and>
   VelX (Update cfg_80x24 1 1 0 (still_fish\<lparr>PosX := 570, VelX := 10\<rparr>)) = - 10 \<and>
   PosX (Update cfg_80x24 1 1 0 (still_fish\<lparr>PosX := 570, VelX := 10\<rparr>)) = 576"
proof -
  have h: "PosX (still_fish\<lparr>PosX := 570, VelX := 10\<rparr>) + VelX (still_fish\<lparr>PosX := 570, VelX := 10\<rparr>) * 1
     + ImagePixelWidth > termPixelWidth cfg_80x24"
    by (simp add: still_fish_def cfg_80x24_def termPixelWidth_def int64_wrap_def ImagePixelWidth_def)
  show ?thesis
    using h Update_right_wall_reflects [OF h, of 1 0]
    by (simp add: Update_PosX Update_VelX still_fish_def cfg_80x24_def termPixelWidth_def
        int64_wrap_def ImagePixelWidth_def)
qed

section \<open>Speed\<close>

lemma rotation_norm:
  "(x * cos a - y * sin a)\<^sup>2 + (x * sin a + y * cos a)\<^sup>2 = x\<^sup>2 + y\<^sup>2" for x y a :: real
  by (simp add: power2_diff power2_sum power_mult_distrib sin_squared_eq algebra_simps)

lemma OnClick_Vel:
  "VelX (OnClick j gl a f) = VelX f * cos (angles ! Intn (length angles) a * pi / 180)
                            - VelY f * sin (angles ! Intn (length angles) a * pi / 180)"
  "VelY (OnClick j gl a f) = VelX f * sin (angles ! Intn (length angles) a * pi / 180)
                            + VelY f * cos (angles ! Intn (length angles) a * pi / 180)"
  by (simp_all add: OnClick_def Let_def)

lemma speed_OnClick: "speed (OnClick j gl a f) = speed f"
  unfolding speed_def OnClick_Vel by (simp only: rotation_norm)

lemma Update_abs_Vel:
  "\<bar>VelX (Update c dt r g f)\<bar> = \<bar>VelX f\<bar>" "\<bar>VelY (Update c dt r g f)\<bar> = \<bar>VelY f\<bar>"
  by (simp_all add: Update_VelX Update_VelY)

lemma speed_Update: "speed (Update c dt r g f) = speed f"
proof -
  have "(VelX (Update c dt r g f))\<^sup>2 = (VelX f)\<^sup>2" "(VelY (Update c dt r g f))\<^sup>2 = (VelY f)\<^sup>2"
    using Update_abs_Vel [of c dt r g f] by (metis power2_abs)+
  then show ?thesis by (simp add: speed_def)
qed

lemma speed_events: "speed (foldl apply_event f evs) = speed f"
proof (induction evs arbitrary: f)
  case Nil
  show ?case by simp
next
  case (Cons e evs)
  have "speed (apply_event f e) = speed f"
    by (cases e) (simp_all add: speed_Update speed_OnClick)
  with Cons.IH [of "apply_event f e"] show ?case by simp
qed

text \<open>
  C10. A physics tick never changes the magnitudes \<open>|VelX|\<close> and \<open>|VelY|\<close>; the rotation of
  \<open>OnClick\<close> preserves the Euclidean norm of the velocity; so across any sequence of ticks
  and clicks the speed of the fish is unchanged.
\<close>

theorem speed_preserved:
  "\<bar>VelX (Update c dt r g f)\<bar> = \<bar>VelX f\<bar> \<and> \<bar>VelY (Update c dt r g f)\<bar> = \<bar>VelY f\<bar> \<and>
   sqrt ((VelX (OnClick j gl a f))\<^sup>2 + (VelY (OnClick j gl a f))\<^sup>2) = sqrt ((VelX f)\<^sup>2 + (VelY f)\<^sup>2) \<and>
   speed (foldl apply_event f evs) = speed f"
  using speed_OnClick [of j gl a f, unfolded speed_def] by (simp add: Update_abs_Vel speed_events)

theorem speed_preserved_witness:
  "speed (foldl apply_event (still_fish\<lparr>PosX := 570, VelX := 3, VelY := 4\<rparr>)
            [Tick cfg_80x24 1 1 0, Click (\<lambda>i. 0) (\<lambda>i. 0) 2, Tick cfg_80x24 2 1 0]) = sqrt 25"
  using speed_preserved [of cfg_80x24 1 1 0 "still_fish\<lparr>PosX := 570, VelX := 3, VelY := 4\<rparr>"
      "\<lambda>i. 0" "\<lambda>i. 0" 2 "[Tick cfg_80x24 1 1 0, Click (\<lambda>i. 0) (\<lambda>i. 0) 2, Tick cfg_80x24 2 1 0]"]
  by (simp add: speed_def still_fish_def)

section \<open>The bob offset\<close>

lemma go_int_nonneg: "0 \<le> t \<Longrightarrow> go_int t = \<lfloor>t\<rfloor>" by (simp add: go_int_def)
lemma go_rem_nonneg: "0 \<le> a \<Longrightarrow> go_rem a 4 = a mod 4"
  by (cases "a = 0") (simp_all add: go_rem_def)
lemma go_rem_nonpos: "a \<le> 0 \<Longrightarrow> go_rem a 4 \<le> 0"
  by (simp add: go_rem_def sgn_if)

lemma bobbingOffset_nonneg:
  assumes "0 \<le> t"
  shows "bobbingOffset t = (if \<lfloor>t\<rfloor> mod 4 = 0 then 0 else if \<lfloor>t\<rfloor> mod 4 = 1 then 6
                            else if \<lfloor>t\<rfloor> mod 4 = 2 then 12 else 6)"
proof -
  have "0 \<le> \<lfloor>t\<rfloor>" using assms by simp
  then have r: "go_rem (go_int t) 4 = \<lfloor>t\<rfloor> mod 4"
    using assms by (simp add: go_int_nonneg go_rem_nonneg)
  have "\<lfloor>t\<rfloor> mod 4 = 0 \<or> \<lfloor>t\<rfloor> mod 4 = 1 \<or> \<lfloor>t\<rfloor> mod 4 = 2 \<or> \<lfloor>t\<rfloor> mod 4 = 3"
    by presburger
  then show ?thesis
    unfolding bobbingOffset_def Let_def r BobbingAmplitude_def by auto
qed

lemma bobbingOffset_neg:
  assumes "t < 0"
  shows "bobbingOffset t = 0"
proof -
  have "\<lceil>t\<rceil> \<le> 0" using assms by (simp add: ceiling_le_zero)
  then have "go_rem (go_int t) 4 \<le> 0"
    using assms by (simp add: go_int_def go_rem_nonpos)
  then show ?thesis
    unfolding bobbingOffset_def Let_def by auto
qed

lemma bobbingOffset_range: "bobbingOffset t \<in> {0, 6, 12}"
  unfolding bobbingOffset_def Let_def BobbingAmplitude_def by auto

lemma render_bubbles_extends:
  "\<exists>ext. commands (snd (render_bubbles c bs buf)) = commands buf @ ext"
proof (induction bs arbitrary: buf)
  case Nil
  show ?case by simp
next
  case (Cons b bs)
  define buf1 where "buf1 = (if PrevCol b > 0 \<and> PrevRow b > 0
                   then AddClearCell (PrevRow b) (PrevCol b) buf else buf)"
  have "\<exists>e1. commands buf1 = commands buf @ e1"
    by (simp add: buf1_def AddClearCell_def)
  then obtain e1 where e1: "commands buf1 = commands buf @ e1" ..
  define bc where "bc = go_int (X b / real_of_int (CellWidth c)) + 1"
  define br where "br = go_int (Y b / real_of_int (CellHeight c)) + 1"
  show ?case
  proof (cases "bc \<ge> 1 \<and> bc \<le> Columns c \<and> br \<ge> 1 \<and> br \<le> Rows c")
    case True
    obtain e2 where "commands (snd (render_bubbles c bs (AddText br bc (Char_str b) buf1)))
                      = commands (AddText br bc (Char_str b) buf1) @ e2"
      using Cons.IH by blast
    then have "commands (snd (render_bubbles c (b # bs) buf)) = commands buf @ e1 @ [cursor_to br bc @ Char_str b] @ e2"
      using True e1 by (simp add: Let_def buf1_def [symmetric] bc_def [symmetric] br_def [symmetric] AddText_def split_beta)
    then show ?thesis by blast
  next
    case False
    obtain e2 where "commands (snd (render_bubbles c bs buf1)) = commands buf1 @ e2"
      using Cons.IH by blast
    then have "commands (snd (render_bubbles c (b # bs) buf)) = commands buf @ e1 @ e2"
      using False e1 by (auto simp: Let_def buf1_def [symmetric] bc_def [symmetric] br_def [symmetric] split_beta)
    then show ?thesis by blast
  qed
qed

lemma clear_cells_extends:
  "\<exists>ext. commands (foldl (\<lambda>b (row, col). AddClearCell row col b) buf cs) = commands buf @ ext"
proof (induction cs arbitrary: buf)
  case Nil
  show ?case by simp
next
  case (Cons x xs)
  obtain row col where x: "x = (row, col)" by (cases x)
  obtain e where "commands (foldl (\<lambda>b (row, col). AddClearCell row col b) (AddClearCell row col buf) xs)
       = commands (AddClearCell row col buf) @ e"
    using Cons.IH by blast
  then show ?case by (simp add: x AddClearCell_def)
qed

lemma Render_shape:
  assumes "Render buf c f = Inr (f', buf')"
  shows "CellWidth c \<noteq> 0 \<and> CellHeight c \<noteq> 0 \<and>
         LastImageID f' = imageID_of f \<and> PlacementID f' = PlacementID f \<and>
         (\<exists>pre. commands buf' = commands buf @ pre @
            (if LastImageID f \<noteq> 0 \<and> LastImageID f \<noteq> imageID_of f
             then [delete_command (LastImageID f) (PlacementID f)] else []) @
            [cursor_to (go_int ((PosY f + bobbingOffset (BobbingTime f)) / real_of_int (CellHeight c)) + 1)
                       (go_int (PosX f / real_of_int (CellWidth c)) + 1),
             placement_command (imageID_of f) (PlacementID f)
               (go_quot (64 + CellWidth c - 1) (CellWidth c))
               (go_quot (36 + CellHeight c - 1) (CellHeight c))
               (go_rem (go_int (PosX f)) (CellWidth c))
               (go_rem (go_int (PosY f + bobbingOffset (BobbingTime f))) (CellHeight c))])"
proof -
  have nz: "CellWidth c \<noteq> 0 \<and> CellHeight c \<noteq> 0"
    using assms by (auto simp: Render_def Let_def split: if_splits)
  define buf1 where "buf1 = foldl (\<lambda>b (row, col). AddClearCell row col b) buf (BubblesToClear f)"
  obtain bs buf2 where rb: "render_bubbles c (Bubbles f) buf1 = (bs, buf2)"
    by (cases "render_bubbles c (Bubbles f) buf1")
  obtain e1 where e1: "commands buf1 = commands buf @ e1"
    unfolding buf1_def using clear_cells_extends by blast
  obtain e2 where e2: "commands buf2 = commands buf1 @ e2"
    using render_bubbles_extends [of c "Bubbles f" buf1] rb by auto
  have "commands buf2 = commands buf @ (e1 @ e2)" using e1 e2 by simp
  then show ?thesis
    using assms nz rb
    by (auto simp: Render_def Let_def buf1_def [symmetric] imageID_of_def
        AddDeletePlacement_def AddFishPlacement_def)
qed

lemma Render_returns:
  "CellWidth c \<noteq> 0 \<Longrightarrow> CellHeight c \<noteq> 0 \<Longrightarrow> \<exists>f' buf'. Render buf c f = Inr (f', buf')"
  by (simp add: Render_def Let_def split: prod.split)

lemma events_keep:
  "LastImageID (foldl apply_event f evs) = LastImageID f \<and> PlacementID (foldl apply_event f evs) = PlacementID f"
proof (induction evs arbitrary: f)
  case Nil
  show ?case by simp
next
  case (Cons e evs)
  have "LastImageID (apply_event f e) = LastImageID f \<and> PlacementID (apply_event f e) = PlacementID f"
    by (cases e) simp_all
  with Cons.IH [of "apply_event f e"] show ?case by simp
qed

lemma concat_String: "commands b' = commands b @ ext \<Longrightarrow> String b' = String b @ concat ext"
  by (simp add: String_def)

lemma NewFish_phase_nonneg:
  "NewFish ident ownerID tw th cw ch user color draw = Inr f \<Longrightarrow> 0 \<le> draw 4 \<Longrightarrow> 0 \<le> BobbingTime f"
  by (auto simp: NewFish_def Let_def split: if_splits)

lemma Update_phase_nonneg:
  "0 \<le> BobbingTime f \<Longrightarrow> 0 \<le> dt \<Longrightarrow> 0 \<le> BobbingTime (Update c dt r g f)"
  by (simp add: Update_def Let_def BobbingFrequency_def)

lemma OnClick_phase [simp]: "BobbingTime (OnClick j gl a f) = BobbingTime f"
  by (simp add: OnClick_def Let_def)

lemma Render_phase: "Render buf c f = Inr (f', buf') \<Longrightarrow> BobbingTime f' = BobbingTime f"
  by (auto simp: Render_def Let_def split: if_splits prod.splits)

text \<open>
  The phase is never negative: \<open>NewFish\<close> draws it from \<open>rand.Float64() * 100\<close>, a tick adds
  \<open>4.8 * deltaTime\<close> with the elapsed time \<open>deltaTime \<ge> 0\<close>, and clicks and renders keep it.
\<close>

lemma phase_nonneg_events:
  assumes "0 \<le> BobbingTime f"
    and "\<forall>e \<in> set evs. nonneg_tick e"
  shows "0 \<le> BobbingTime (foldl apply_event f evs)"
  using assms
proof (induction evs arbitrary: f)
  case Nil
  then show ?case by simp
next
  case (Cons e evs)
  have "0 \<le> BobbingTime (apply_event f e)"
    using Cons.prems by (cases e) (simp_all add: Update_phase_nonneg)
  with Cons show ?case by simp
qed

text \<open>
  C6. For every fish and every phase its accumulator can hold (the phase is never negative),
  the bob offset applied by \<open>Render\<close> and by \<open>CheckCollision\<close> is the step function taking
  the value 0, 6, 12 or 6 according to \<open>floor(BobbingTime) mod 4\<close> being 0, 1, 2 or 3; it lies
  in the discrete set of 0, half the amplitude and the amplitude. \<open>CheckCollision\<close> tests the
  rectangle at \<open>PosY\<close> plus this offset, and \<open>Render\<close> places the sprite at the row and
  vertical pixel offset of \<open>PosY\<close> plus this offset.
\<close>

theorem bobbingOffset_stepped:
  assumes "0 \<le> BobbingTime f"
  shows "bobbingOffset (BobbingTime f) =
      (if \<lfloor>BobbingTime f\<rfloor> mod 4 = 0 then 0 else if \<lfloor>BobbingTime f\<rfloor> mod 4 = 1 then 6
       else if \<lfloor>BobbingTime f\<rfloor> mod 4 = 2 then 12 else 6) \<and>
   bobbingOffset (BobbingTime f) \<in> {0, BobbingAmplitude / 2, BobbingAmplitude} \<and>
   CheckCollision f mx my =
     (go_int (PosX f) \<le> mx \<and> mx \<le> go_int (PosX f) + 64 \<and>
      go_int (PosY f + bobbingOffset (BobbingTime f)) \<le> my \<and>
      my \<le> go_int (PosY f + bobbingOffset (BobbingTime f)) + 36) \<and>
   (\<forall>f' buf'. Render buf c f = Inr (f', buf') \<longrightarrow>
      (\<exists>pre col w h xo. commands buf' = commands buf @ pre @
         [cursor_to (go_int ((PosY f + bobbingOffset (BobbingTime f)) / real_of_int (CellHeight c)) + 1) col,
          placement_command (imageID_of f) (PlacementID f) w h xo
            (go_rem (go_int (PosY f + bobbingOffset (BobbingTime f))) (CellHeight c))]))"
proof -
  have "\<exists>pre col w h xo. commands buf' = commands buf @ pre @
         [cursor_to (go_int ((PosY f + bobbingOffset (BobbingTime f)) / real_of_int (CellHeight c)) + 1) col,
          placement_command (imageID_of f) (PlacementID f) w h xo
            (go_rem (go_int (PosY f + bobbingOffset (BobbingTime f))) (CellHeight c))]"
    if r: "Render buf c f = Inr (f', buf')" for f' buf'
  proof -
    obtain pre where "commands buf' = commands buf @ (pre @
            (if LastImageID f \<noteq> 0 \<and> LastImageID f \<noteq> imageID_of f
             then [delete_command (LastImageID f) (PlacementID f)] else [])) @
            [cursor_to (go_int ((PosY f + bobbingOffset (BobbingTime f)) / real_of_int (CellHeight c)) + 1)
                       (go_int (PosX f / real_of_int (CellWidth c)) + 1),
             placement_command (imageID_of f) (PlacementID f)
               (go_quot (64 + CellWidth c - 1) (CellWidth c))
               (go_quot (36 + CellHeight c - 1) (CellHeight c))
               (go_rem (go_int (PosX f)) (CellWidth c))
               (go_rem (go_int (PosY f + bobbingOffset (BobbingTime f))) (CellHeight c))]"
      using Render_shape [OF r] by auto
    then show ?thesis by blast
  qed
  moreover have "bobbingOffset (BobbingTime f) \<in> {0, BobbingAmplitude / 2, BobbingAmplitude}"
    using bobbingOffset_range [of "BobbingTime f"] by (simp add: BobbingAmplitude_def)
  ultimately show ?thesis
    using assms by (simp add: bobbingOffset_nonneg CheckCollision_def Let_def)
qed

text \<open>
  At phase 2.5 the offset is 12: a click 12 pixels below the physics position hits, a click
  at the physics position itself misses.
\<close>

theorem bobbingOffset_stepped_witness:
  "0 \<le> BobbingTime (still_fish\<lparr>BobbingTime := 5 / 2\<rparr>) \<and>
   bobbingOffset (BobbingTime (still_fish\<lparr>BobbingTime := 5 / 2\<rparr>)) = 12 \<and>
   CheckCollision (still_fish\<lparr>BobbingTime := 5 / 2\<rparr>) 0 12 \<and>
   \<not> CheckCollision (still_fish\<lparr>BobbingTime := 5 / 2\<rparr>) 0 0"
proof -
  have h: "0 \<le> BobbingTime (still_fish\<lparr>BobbingTime := 5 / 2\<rparr>)" by simp
  show ?thesis
    using h bobbingOffset_stepped [OF h, where mx = 0 and my = 12]
      bobbingOffset_stepped [OF h, where mx = 0 and my = 0]
    by (simp add: still_fish_def go_int_def)
qed

section \<open>Rendering a changed sprite variant\<close>

text \<open>
  C4. For every fish and every pair of consecutive \<open>Render\<close> calls (with any ticks and clicks
  in between) in which the sprite variant differs from the variant recorded at the previous
  render, the bytes produced by the second \<open>Render\<close> contain the deletion command for the
  old image id and the placement id before the placement command for the new variant
  with the same placement id.
\<close>

theorem Render_deletes_old_variant_first:
  assumes "Render buf0 c0 f0 = Inr (f1, buf1)"
    and "f = foldl apply_event f1 evs"
    and "imageID_of f \<noteq> LastImageID f1"
    and "Render buf c f = Inr (f2, buf2)"
  shows "\<exists>pre row col.
           String buf2 = String buf @ pre
             @ delete_command (LastImageID f1) (PlacementID f1)
             @ cursor_to row col
             @ placement_command (imageID_of f) (PlacementID f1)
                 (go_quot (64 + CellWidth c - 1) (CellWidth c))
                 (go_quot (36 + CellHeight c - 1) (CellHeight c))
                 (go_rem (go_int (PosX f)) (CellWidth c))
                 (go_rem (go_int (PosY f + bobbingOffset (BobbingTime f))) (CellHeight c))"
proof -
  have last1: "LastImageID f1 = imageID_of f0"
    using Render_shape [OF assms(1)] by simp
  have keep: "LastImageID f = LastImageID f1" "PlacementID f = PlacementID f1"
    using events_keep [of f1 evs] assms(2) by simp_all
  have "LastImageID f \<noteq> 0"
    using keep last1 by (simp add: imageID_of_def)
  moreover have "LastImageID f \<noteq> imageID_of f"
    using keep assms(3) by simp
  ultimately obtain pre where
    "commands buf2 = commands buf @ pre @
        [delete_command (LastImageID f) (PlacementID f)] @
        [cursor_to (go_int ((PosY f + bobbingOffset (BobbingTime f)) / real_of_int (CellHeight c)) + 1)
                   (go_int (PosX f / real_of_int (CellWidth c)) + 1),
         placement_command (imageID_of f) (PlacementID f)
           (go_quot (64 + CellWidth c - 1) (CellWidth c))
           (go_quot (36 + CellHeight c - 1) (CellHeight c))
           (go_rem (go_int (PosX f)) (CellWidth c))
           (go_rem (go_int (PosY f + bobbingOffset (BobbingTime f))) (CellHeight c))]"
    using Render_shape [OF assms(4)] by auto
  from concat_String [OF this] show ?thesis
    unfolding keep by (intro exI [of _ "concat pre"] exI) simp
qed

lemma Render_fields:
  assumes "Render buf c f = Inr (f', buf')"
  shows "PosX f' = PosX f \<and> PosY f' = PosY f \<and> VelX f' = VelX f \<and> VelY f' = VelY f \<and>
         BobbingTime f' = BobbingTime f \<and> OwnerID f' = OwnerID f"
  using assms by (auto simp: Render_def Let_def split: if_splits prod.splits)

lemma Update_BobbingTime:
  "BobbingTime (Update c dt r g f) = BobbingTime f + BobbingFrequency * dt"
  by (simp add: Update_def Let_def)

theorem Render_deletes_old_variant_first_witness:
  "\<exists>f1 buf1 f2 buf2 pre row col.
     Render NewUpdateBuffer cfg_80x24 (still_fish\<lparr>PosX := 570, VelX := 10\<rparr>) = Inr (f1, buf1) \<and>
     imageID_of (foldl apply_event f1 [Tick cfg_80x24 1 1 0]) \<noteq> LastImageID f1 \<and>
     Render NewUpdateBuffer cfg_80x24 (foldl apply_event f1 [Tick cfg_80x24 1 1 0]) = Inr (f2, buf2) \<and>
     String buf2 = pre @ delete_command 2 1 @ cursor_to row col @ placement_command 1 1 8 3 0 0"
proof -
  let ?f0 = "still_fish\<lparr>PosX := 570, VelX := 10\<rparr>"
  have nz: "CellWidth cfg_80x24 \<noteq> 0" "CellHeight cfg_80x24 \<noteq> 0"
    by (simp_all add: cfg_80x24_def)
  obtain f1 buf1 where r1: "Render NewUpdateBuffer cfg_80x24 ?f0 = Inr (f1, buf1)"
    using Render_returns [OF nz] by blast
  let ?f = "foldl apply_event f1 [Tick cfg_80x24 1 1 0]"
  obtain f2 buf2 where r2: "Render NewUpdateBuffer cfg_80x24 ?f = Inr (f2, buf2)"
    using Render_returns [OF nz] by blast
  have s1: "LastImageID f1 = 2" "PlacementID f1 = 1"
    using Render_shape [OF r1] by (simp_all add: imageID_of_def still_fish_def)
  have p1: "PosX f1 = 570" "VelX f1 = 10" "PosY f1 = 0" "VelY f1 = 0" "BobbingTime f1 = 0"
    using Render_fields [OF r1] by (simp_all add: still_fish_def)
  have w: "termPixelWidth cfg_80x24 = 640" "usableHeight cfg_80x24 = 305"
    by (simp_all add: cfg_80x24_def usableHeight_eq termPixelHeight_def termPixelWidth_def int64_wrap_def)
  have pf: "VelX ?f = - 10" "PosX ?f = 576" "PosY ?f = 0" "BobbingTime ?f = 24 / 5"
    by (simp_all add: Update_VelX Update_PosX Update_PosY Update_BobbingTime p1 w nz BobbingFrequency_def)
  have d: "imageID_of ?f \<noteq> LastImageID f1"
    by (simp only: imageID_of_def pf s1) simp
  have b: "bobbingOffset (24 / 5) = 0"
    by (simp add: bobbingOffset_nonneg)
  have i: "imageID_of ?f = 1" by (simp only: imageID_of_def pf) simp
  obtain pre row col where
    "String buf2 = String NewUpdateBuffer @ pre
             @ delete_command (LastImageID f1) (PlacementID f1)
             @ cursor_to row col
             @ placement_command (imageID_of ?f) (PlacementID f1)
                 (go_quot (64 + CellWidth cfg_80x24 - 1) (CellWidth cfg_80x24))
                 (go_quot (36 + CellHeight cfg_80x24 - 1) (CellHeight cfg_80x24))
                 (go_rem (go_int (PosX ?f)) (CellWidth cfg_80x24))
                 (go_rem (go_int (PosY ?f + bobbingOffset (BobbingTime ?f))) (CellHeight cfg_80x24))"
    using Render_deletes_old_variant_first [OF r1 refl d r2] by blast
  then have "String buf2 = pre @ delete_command 2 1 @ cursor_to row col @ placement_command 1 1 8 3 0 0"
    unfolding s1 i pf b
    by (simp add: String_def NewUpdateBuffer_def cfg_80x24_def go_quot_def go_rem_def go_int_def)
  with r1 r2 d show ?thesis by blast
qed

section \<open>Clicks\<close>

lemma click_loop_none:
  "\<forall>(k, f) \<in> set fs. \<not> (CheckCollision f mx my \<and> OwnerID f = cid) \<Longrightarrow>
   click_loop cid mx my j gl a fs = fs"
  by (induction fs) auto

lemma click_loop_first:
  "\<forall>(k', f') \<in> set pre. \<not> (CheckCollision f' mx my \<and> OwnerID f' = cid) \<Longrightarrow>
   CheckCollision f mx my \<Longrightarrow> OwnerID f = cid \<Longrightarrow>
   click_loop cid mx my j gl a (pre @ (k, f) # post) = pre @ (k, OnClick j gl a f) # post"
  by (induction pre) auto

lemma first_split:
  "\<exists>x \<in> set xs. P x \<Longrightarrow> \<exists>pre x post. xs = pre @ x # post \<and> (\<forall>y \<in> set pre. \<not> P y) \<and> P x"
  by (metis split_list_first_prop)

lemma angle_choice: "angles ! Intn (length angles) a \<in> {90, 180, 260}"
proof -
  have "a mod 3 = 0 \<or> a mod 3 = 1 \<or> a mod 3 = 2" by presburger
  then show ?thesis by (auto simp: angles_def Intn_def)
qed

lemma upt_0_3: "[0..<3] = [0, 1, 2]"
  by code_simp

lemma OnClick_eq:
  "OnClick j gl a f =
     f\<lparr>Bubbles := Bubbles f @ [click_bubble j gl f 0, click_bubble j gl f 1, click_bubble j gl f 2],
       VelX := VelX f * cos (angles ! Intn (length angles) a * pi / 180)
               - VelY f * sin (angles ! Intn (length angles) a * pi / 180),
       VelY := VelX f * sin (angles ! Intn (length angles) a * pi / 180)
               + VelY f * cos (angles ! Intn (length angles) a * pi / 180)\<rparr>"
  by (simp add: OnClick_def Let_def upt_0_3)

lemma click_bubble_Y:
  "Y (click_bubble j gl f 0) = PosY f - 2" "Y (click_bubble j gl f 1) = PosY f - 7"
  "Y (click_bubble j gl f 2) = PosY f - 12"
  by (simp_all add: click_bubble_def)

text \<open>
  C2 (amended). For every left-button-down click handled by \<open>HandleMouseClick\<close> (with a
  terminal configuration set): colliding fish that are not owned by the clicking session
  are skipped without mutation and without error; the first fish in iteration order that
  collides (tested against the rendered rectangle including the bob offset) and is owned by
  the clicking session gets exactly 3 bubbles appended, at heights \<open>PosY - 2\<close>, \<open>PosY - 7\<close>
  and \<open>PosY - 12\<close>, and its velocity rotated by an angle from 90, 180 and 260 degrees; if no
  fish collides and is owned, nothing changes; in every case at most one fish is mutated.
\<close>

theorem HandleMouseClick_first_owned_collision:
  assumes "termConfig m = Some tc"
    and "mx = int64_wrap ((col - 1) * CellWidth tc)"
    and "my = int64_wrap ((row - 1) * CellHeight tc)"
    and "m' = HandleMouseClick cid 0 col row j gl a m"
  shows "if \<exists>(k, f) \<in> set (fish m). CheckCollision f mx my \<and> OwnerID f = cid
         then \<exists>pre k f post \<theta>.
                fish m = pre @ (k, f) # post \<and>
                (\<forall>(k', f') \<in> set pre. \<not> (CheckCollision f' mx my \<and> OwnerID f' = cid)) \<and>
                CheckCollision f mx my \<and> OwnerID f = cid \<and>
                \<theta> \<in> {90, 180, 260} \<and>
                m' = m\<lparr>fish := pre @
                       (k, f\<lparr>Bubbles := Bubbles f @
                                [click_bubble j gl f 0, click_bubble j gl f 1, click_bubble j gl f 2],
                             VelX := VelX f * cos (\<theta> * pi / 180) - VelY f * sin (\<theta> * pi / 180),
                             VelY := VelX f * sin (\<theta> * pi / 180) + VelY f * cos (\<theta> * pi / 180)\<rparr>)
                       # post\<rparr> \<and>
                Y (click_bubble j gl f 0) = PosY f - 2 \<and>
                Y (click_bubble j gl f 1) = PosY f - 7 \<and>
                Y (click_bubble j gl f 2) = PosY f - 12
         else m' = m"
proof (cases "\<exists>(k, f) \<in> set (fish m). CheckCollision f mx my \<and> OwnerID f = cid")
  case True
  let ?P = "\<lambda>(k, f). CheckCollision f mx my \<and> OwnerID f = cid"
  obtain pre x post where sp: "fish m = pre @ x # post" "\<forall>y \<in> set pre. \<not> ?P y" "?P x"
    using first_split [of "fish m" ?P] True by blast
  obtain k f where x: "x = (k, f)" by (cases x)
  have pre: "\<forall>(k', f') \<in> set pre. \<not> (CheckCollision f' mx my \<and> OwnerID f' = cid)"
    using sp(2) by auto
  have hit: "CheckCollision f mx my" "OwnerID f = cid" using sp(3) x by auto
  have "m' = m\<lparr>fish := pre @ (k, OnClick j gl a f) # post\<rparr>"
    using assms sp(1) x click_loop_first [OF pre hit, of j gl a k post]
    by (simp add: HandleMouseClick_def Let_def)
  then have "m' = m\<lparr>fish := pre @
                       (k, f\<lparr>Bubbles := Bubbles f @
                                [click_bubble j gl f 0, click_bubble j gl f 1, click_bubble j gl f 2],
                             VelX := VelX f * cos (angles ! Intn (length angles) a * pi / 180)
                                     - VelY f * sin (angles ! Intn (length angles) a * pi / 180),
                             VelY := VelX f * sin (angles ! Intn (length angles) a * pi / 180)
                                     + VelY f * cos (angles ! Intn (length angles) a * pi / 180)\<rparr>)
                       # post\<rparr>"
    by (simp only: OnClick_eq)
  with sp(1) x pre hit angle_choice [of a] click_bubble_Y [of j gl f] True show ?thesis
    by (simp only: if_True) blast
next
  case False
  then have "\<forall>(k, f) \<in> set (fish m). \<not> (CheckCollision f mx my \<and> OwnerID f = cid)" by auto
  from click_loop_none [OF this] have "m' = m"
    using assms by (simp add: HandleMouseClick_def Let_def)
  with False show ?thesis by simp
qed

theorem HandleMouseClick_first_owned_collision_witness:
  "termConfig click_manager = Some cfg_80x24 \<and>
   (\<exists>pre k f post \<theta>.
      fish click_manager = pre @ (k, f) # post \<and>
      (\<forall>(k', f') \<in> set pre. \<not> (CheckCollision f' 0 0 \<and> OwnerID f' = 1)) \<and>
      CheckCollision f 0 0 \<and> OwnerID f = 1 \<and> \<theta> \<in> {90, 180, 260} \<and>
      HandleMouseClick 1 0 1 1 half_draw glyph_draw 1 click_manager =
        click_manager\<lparr>fish := pre @
           (k, f\<lparr>Bubbles := Bubbles f @
                    [click_bubble half_draw glyph_draw f 0, click_bubble half_draw glyph_draw f 1,
                     click_bubble half_draw glyph_draw f 2],
                 VelX := VelX f * cos (\<theta> * pi / 180) - VelY f * sin (\<theta> * pi / 180),
                 VelY := VelX f * sin (\<theta> * pi / 180) + VelY f * cos (\<theta> * pi / 180)\<rparr>)
           # post\<rparr>)"
proof -
  have tc: "termConfig click_manager = Some cfg_80x24"
    by (simp add: click_manager_def)
  have mx: "(0::int) = int64_wrap ((1 - 1) * CellWidth cfg_80x24)"
    and my: "(0::int) = int64_wrap ((1 - 1) * CellHeight cfg_80x24)"
    by (simp_all add: int64_wrap_def)
  have c: "\<exists>(k, f) \<in> set (fish click_manager). CheckCollision f 0 0 \<and> OwnerID f = 1"
    by (simp add: click_manager_def still_fish_def CheckCollision_def bobbingOffset_nonneg go_int_def)
  show ?thesis
    using tc c HandleMouseClick_first_owned_collision [OF tc mx my refl, of 1 half_draw glyph_draw 1]
    by (simp only: if_True) blast
qed

text \<open>
  C2 as stated fails when the first colliding fish belongs to another session and a later
  colliding fish belongs to the clicking one: the loop continues past the first fish and
  clicks the second. Here connection 1 clicks at cell (1, 1), pixel (0, 0).
\<close>

theorem HandleMouseClick_counterexample:
  "termConfig click_manager = Some cfg_80x24 \<and>
   fish click_manager = [(1, still_fish\<lparr>ID := 1, PlacementID := 1, OwnerID := 2\<rparr>),
                         (2, still_fish\<lparr>ID := 2, PlacementID := 2, OwnerID := 1\<rparr>)] \<and>
   CheckCollision (still_fish\<lparr>ID := 1, PlacementID := 1, OwnerID := 2\<rparr>) 0 0 \<and>
   OwnerID (still_fish\<lparr>ID := 1, PlacementID := 1, OwnerID := 2\<rparr>) \<noteq> 1 \<and>
   length (Bubbles (snd (fish click_manager ! 1))) = 0 \<and>
   length (Bubbles (snd (fish (HandleMouseClick 1 0 1 1 half_draw glyph_draw 1 click_manager) ! 1))) = 3"
  by (simp add: click_manager_def NewManager_def cfg_80x24_def still_fish_def HandleMouseClick_def
      int64_wrap_def CheckCollision_def bobbingOffset_nonneg go_int_def OnClick_eq)

section \<open>The end of an epoch\<close>

lemma keys_delete_all:
  "fst ` set (foldl (\<lambda>fs k. AList.delete k fs) fs ks) = fst ` set fs - set ks"
proof (induction ks arbitrary: fs)
  case Nil
  show ?case by simp
next
  case (Cons k ks)
  have "fst ` set (AList.delete k fs) = fst ` set fs - {k}"
    by (auto simp: AList.delete_eq image_iff)
  with Cons.IH [of "AList.delete k fs"] show ?case by auto
qed

lemma delete_all_Nil [simp]: "foldl (\<lambda>fs k. AList.delete k fs) [] ks = []"
  by (induction ks) simp_all

lemma delete_empty_single:
  assumes "AList.delete k al = []" "distinct (map fst al)" "map_of al k = Some v"
  shows "al = [(k, v)]"
proof -
  have all: "\<forall>x \<in> set al. fst x = k"
    using assms(1) by (auto simp: AList.delete_eq filter_empty_conv)
  obtain x xs where al: "al = x # xs" using assms(3) by (cases al) auto
  have "xs = []"
  proof (cases xs)
    case Nil then show ?thesis .
  next
    case (Cons y ys)
    then have "fst x = k" "fst y = k" using all al by auto
    then show ?thesis using assms(2) al Cons by simp
  qed
  then show ?thesis using al all assms(3) by (cases x) auto
qed

lemma RemoveConnection_Returns:
  assumes "map_of (connections m) cid = Some conn"
    and "RemoveConnection cid anim m = Returns m'"
  shows "m' = (let m2 = m\<lparr>fish := foldl (\<lambda>fs fishID. AList.delete fishID fs) (fish m) (FishIDs conn),
                          connections := AList.delete cid (connections m)\<rparr>
               in if AList.delete cid (connections m) = [] \<and> animationStop m
                  then m2\<lparr>animationStop := False, termConfig := None, aquarium := None,
                          fishCounter := 0\<rparr>
                  else m2)"
  using assms by (auto simp: RemoveConnection_def Let_def split: if_splits)

lemma RemoveConnection_returns_iff:
  assumes "map_of (connections m) cid = Some conn"
  shows "(\<exists>m'. RemoveConnection cid anim m = Returns m') \<longleftrightarrow>
         \<not> (AList.delete cid (connections m) = [] \<and> animationStop m \<and> \<not> animation_exits anim)"
  using assms by (auto simp: RemoveConnection_def Let_def)

lemma RemoveConnection_last:
  assumes inv: "manager_inv m"
    and reg: "map_of (connections m) cid = Some conn"
    and ret: "RemoveConnection cid anim m = Returns m'"
    and last: "connections m' = []"
  shows "fish m' = [] \<and> termConfig m' = None \<and> fishCounter m' = 0"
proof -
  let ?fs = "foldl (\<lambda>fs fishID. AList.delete fishID fs) (fish m) (FishIDs conn)"
  note m' = RemoveConnection_Returns [OF reg ret]
  have del: "AList.delete cid (connections m) = []"
    using last unfolding m' by (simp add: Let_def split: if_splits)
  have single: "connections m = [(cid, conn)]"
    using delete_empty_single [OF del _ reg] inv by (simp add: manager_inv_def)
  have "fst ` set (fish m) \<subseteq> set (FishIDs conn)"
    using inv single by (auto simp: manager_inv_def split: if_splits)
  then have "fst ` set ?fs = {}"
    by (simp add: keys_delete_all)
  then have empty: "?fs = []" by simp
  show ?thesis
  proof (cases "animationStop m")
    case True
    then show ?thesis unfolding m' using del empty by (simp add: Let_def)
  next
    case False
    then have "termConfig m = None" "fishCounter m = 0"
      using inv by (auto simp: manager_inv_def)
    then show ?thesis unfolding m' using del empty False by (simp add: Let_def)
  qed
qed

lemma manager_inv_New: "manager_inv NewManager"
  by (simp add: manager_inv_def NewManager_def)

text \<open>
  The invariant holds of the new manager and is kept by every step the handler takes:
  \<open>Start\<close> (given that the connection counter has not wrapped around onto a live
  connection), \<open>RemoveConnection\<close> when it returns, and \<open>HandleMouseClick\<close>.
\<close>

lemma click_loop_keys: "map fst (click_loop cid mx my j gl a fs) = map fst fs"
  by (induction fs) auto

lemma manager_inv_fish_update:
  assumes "manager_inv m" and "map fst fs' = map fst (fish m)"
  shows "manager_inv (m\<lparr>fish := fs'\<rparr>)"
proof -
  have "fst ` set fs' = fst ` set (fish m)"
    using arg_cong [OF assms(2), of set] by simp
  moreover have "fish m = [] \<Longrightarrow> fs' = []"
    using assms(2) by simp
  ultimately show ?thesis
    using assms(1) unfolding manager_inv_def by (simp del: map_of_eq_Some_iff)
qed

lemma manager_inv_HandleMouseClick:
  assumes "manager_inv m"
  shows "manager_inv (HandleMouseClick cid button col row j gl a m)"
proof (cases "termConfig m")
  case None
  then show ?thesis using assms by (simp add: HandleMouseClick_def)
next
  case (Some tc)
  show ?thesis
  proof (cases "button = 0")
    case False
    then show ?thesis using assms Some by (simp add: HandleMouseClick_def)
  next
    case True
    then show ?thesis
      using Some manager_inv_fish_update [OF assms click_loop_keys]
      by (simp add: HandleMouseClick_def Let_def)
  qed
qed

lemma manager_inv_RemoveConnection:
  assumes inv: "manager_inv m"
    and ret: "RemoveConnection cid anim m = Returns m'"
  shows "manager_inv m'"
proof (cases "map_of (connections m) cid")
  case None
  then show ?thesis using inv ret by (simp add: RemoveConnection_def)
next
  case (Some conn)
  let ?fs = "foldl (\<lambda>fs fishID. AList.delete fishID fs) (fish m) (FishIDs conn)"
  let ?cs = "AList.delete cid (connections m)"
  note m' = RemoveConnection_Returns [OF Some ret]
  have d: "distinct (map fst (connections m))" using inv by (simp add: manager_inv_def)
  have d': "distinct (map fst ?cs)" using d by (rule distinct_delete)
  have own: "\<exists>cid' c. map_of ?cs cid' = Some c \<and> fid \<in> set (FishIDs c)"
    if "fid \<in> fst ` set ?fs" for fid
  proof -
    from that have in_m: "fid \<in> fst ` set (fish m)" and out: "fid \<notin> set (FishIDs conn)"
      by (simp_all add: keys_delete_all)
    then obtain cid' c where c: "map_of (connections m) cid' = Some c" "fid \<in> set (FishIDs c)"
      using inv unfolding manager_inv_def by blast
    have "cid' \<noteq> cid" using c out Some by auto
    then have "map_of ?cs cid' = Some c" using c by simp
    with c show ?thesis by blast
  qed
  have none: "termConfig m = None \<Longrightarrow> ?fs = []"
    using inv by (simp add: manager_inv_def)
  show ?thesis
  proof (cases "?cs = [] \<and> animationStop m")
    case True
    then have "connections m' = []" unfolding m' by (simp add: Let_def)
    from RemoveConnection_last [OF inv Some ret this] True show ?thesis
      unfolding m' by (simp add: Let_def manager_inv_def)
  next
    case False
    then have r: "m' = m\<lparr>fish := ?fs, connections := ?cs\<rparr>"
      unfolding m' by (auto simp: Let_def)
    show ?thesis
      unfolding r manager_inv_def using d' own none inv
      by (auto simp: manager_inv_def)
  qed
qed

lemma manager_inv_Start:
  assumes inv: "manager_inv m"
    and fresh: "map_of (connections m) (atomic_add1 (connCounter m)) = None"
    and st: "Start floorDraw outcome now color draw h m = Inr (h', ids, m')"
  shows "manager_inv m'"
proof (cases "running h")
  case True
  then show ?thesis using st inv by (simp add: Start_def)
next
  case False
  let ?cid = "atomic_add1 (connCounter m)"
  let ?conn = "\<lparr>ConnID = ?cid, FishIDs = [], ConnUsername = username h\<rparr>"
  obtain m1 where ac: "AddConnection (username h) floorDraw now m = (?cid, m1)"
    and c1: "connections m1 = AList.update ?cid ?conn (connections m)"
    and k1: "fish m1 = fish m" "termConfig m1 = termConfig m" "animationStop m1 = animationStop m"
      "fishCounter m1 = fishCounter m"
    by (auto simp: AddConnection_def Let_def)
  let ?h1 = "detect_select outcome (h\<lparr>running := True, connID := ?cid\<rparr>)"
  have cid1: "connID ?h1 = ?cid"
    by (simp add: detect_select_def Let_def split: detection.splits)
  let ?cfg = "\<lparr>Columns = termColumns ?h1, Rows = termRows ?h1,
                CellWidth = cellWidth ?h1, CellHeight = cellHeight ?h1\<rparr>"
  let ?m2 = "if termConfig m1 = None then StartAnimation now (SetTerminalConfig ?cfg m1) else m1"
  have "initializeAquarium now color draw ?h1 m1 = Inr (ids, m')"
    using st False ac
    by (simp add: Start_def detectTerminalAndInit_def Let_def split: sum.splits prod.splits)
  then have af: "AddFish ?cid 1 color draw ?m2 = Inr (ids, m')"
    unfolding initializeAquarium_def Let_def GetTerminalConfig_def cid1
    by (simp only: TerminalConfig.simps)
  have reg2: "map_of (connections ?m2) ?cid = Some ?conn"
    by (simp add: c1 update_conv' StartAnimation_def SetTerminalConfig_def)
  obtain tc where tc2: "termConfig ?m2 = Some tc"
    by (cases "termConfig m1") (auto simp: StartAnimation_def SetTerminalConfig_def)
  have as2: "animationStop ?m2"
    using inv k1 by (auto simp: manager_inv_def StartAnimation_def SetTerminalConfig_def)
  have c2: "connections ?m2 = AList.update ?cid ?conn (connections m)"
    and f2: "fish ?m2 = fish m"
    by (simp_all add: c1 k1 StartAnimation_def SetTerminalConfig_def)
  let ?fid = "atomic_add1 (fishCounter ?m2)"
  obtain f where m': "m' = ?m2\<lparr>fishCounter := ?fid, fish := AList.update ?fid f (fish ?m2),
       connections := AList.update ?cid (?conn\<lparr>FishIDs := FishIDs ?conn @ [?fid]\<rparr>) (connections ?m2)\<rparr>"
    using af unfolding AddFish_def Let_def
    by (simp only: reg2 tc2 option.case split: sum.splits) auto
  have d: "distinct (map fst (connections m'))"
    unfolding m' using inv by (simp add: c2 manager_inv_def distinct_update)
  have own: "\<exists>cid' c. map_of (connections m') cid' = Some c \<and> fid \<in> set (FishIDs c)"
    if "fid \<in> fst ` set (fish m')" for fid
  proof (cases "fid = ?fid")
    case True
    then show ?thesis unfolding m' by (auto simp: update_conv')
  next
    case False
    with that have "fid \<in> fst ` set (fish m)"
      unfolding m' by (simp add: dom_update f2)
    then obtain cid' c where c: "map_of (connections m) cid' = Some c" "fid \<in> set (FishIDs c)"
      using inv unfolding manager_inv_def by blast
    then have "cid' \<noteq> ?cid" using fresh by auto
    then have "map_of (connections m') cid' = Some c"
      unfolding m' using c by (simp add: c2 update_conv')
    with c show ?thesis by blast
  qed
  have "termConfig m' = Some tc" "animationStop m'"
    unfolding m' using tc2 as2 by simp_all
  with d own show ?thesis by (auto simp: manager_inv_def)
qed

lemma atomic_add1_0 [simp]: "atomic_add1 0 = 1"
  by (simp add: atomic_add1_def)

lemma epoch_manager_eq:
  "epoch_manager =
    \<lparr>fish = [(1, \<lparr>ID = 1, OwnerID = 1, PlacementID = 1, PosX = 288, PosY = 142, VelX = 0, VelY = 0,
                   BobbingTime = 50, Bubbles = [], LastImageID = 0, BubblesToClear = [],
                   Username = ''u'', Color = ''c''\<rparr>)],
     connections = [(1, \<lparr>ConnID = 1, FishIDs = [1], ConnUsername = ''u''\<rparr>)],
     termConfig = Some cfg_80x24, animationStop = True, fishCounter = 1, connCounter = 1,
     debugMode = False, lastUpdate = 0,
     aquarium = Some \<lparr>FloorTileID = 0, StartTime = 0, FloorRendered = False, LastStatusUpdate = 0\<rparr>\<rparr>"
  by (simp add: epoch_manager_def result_manager_def Start_def New_def AddConnection_def NewManager_def
      Let_def detectTerminalAndInit_def detect_select_def initializeAquarium_def GetTerminalConfig_def
      SetTerminalConfig_def StartAnimation_def AddFish_def NewFish_def int64_wrap_def go_quot_def
      half_draw_def cfg_80x24_def Intn_def)

text \<open>
  When the call returns, the claim holds: in every state that satisfies the invariant of
  the manager, unregistering the last registered session leaves the fish table empty, the
  configuration unset and the fish-id counter at 0.
\<close>

lemma RemoveConnection_ends_epoch:
  assumes "manager_inv m"
    and "map_of (connections m) cid = Some conn"
    and "RemoveConnection cid anim m = Returns m'"
    and "length (connections m') = 0"
  shows "fish m' = [] \<and> termConfig m' = None \<and> fishCounter m' = 0 \<and>
         GetTerminalConfig m' = None"
  using RemoveConnection_last [OF assms(1,2,3)] assms(4) by (simp add: GetTerminalConfig_def)

text \<open>
  C7. If unregistering a session brings the session count to 0, then afterwards the fish
  table is empty, the terminal configuration is unset and the fish-id counter is reset. The
  code does so only when the animation goroutine is idle: for the manager of one started
  session, the call made while the goroutine is inside a tick (or picks a ready tick over
  the stop signal) never returns. It is stuck in \<open>animationWg.Wait()\<close> with the lock held and
  the configuration still set, so no later registration can enter either. The same call
  with the goroutine idle returns the reset manager, and \<open>Stop\<close>, which releases the lock
  before it waits, returns the cleared manager also inside a tick.
\<close>

theorem RemoveConnection_blocks_inside_tick:
  "termConfig epoch_manager = Some cfg_80x24 \<and> animationStop epoch_manager \<and>
   length (connections epoch_manager) = 1 \<and>
   RemoveConnection 1 InsideTick epoch_manager
     = BlocksForever (epoch_manager\<lparr>fish := [], connections := []\<rparr>) \<and>
   RemoveConnection 1 (TickReady False) epoch_manager
     = BlocksForever (epoch_manager\<lparr>fish := [], connections := []\<rparr>) \<and>
   termConfig (epoch_manager\<lparr>fish := [], connections := []\<rparr>) = Some cfg_80x24 \<and>
   fishCounter (epoch_manager\<lparr>fish := [], connections := []\<rparr>) = 1 \<and>
   RemoveConnection 1 IdleInSelect epoch_manager
     = Returns (epoch_manager\<lparr>fish := [], connections := [], animationStop := False,
                                termConfig := None, aquarium := None, fishCounter := 0\<rparr>) \<and>
   Stop InsideTick epoch_manager
     = Returns (epoch_manager\<lparr>animationStop := False, fish := [], connections := [],
                                termConfig := None, fishCounter := 0, connCounter := 0\<rparr>)"
  by (simp add: epoch_manager_eq RemoveConnection_def Stop_def Let_def)

section \<open>Terminal detection\<close>

lemma go_quot_nonneg: "0 \<le> a \<Longrightarrow> 0 < b \<Longrightarrow> go_quot a b = a div b"
  by (cases "a = 0") (simp_all add: go_quot_def)

lemma detect_select_Response:
  "termColumns h > 0 \<Longrightarrow> termRows h > 0 \<Longrightarrow>
   detect_select (Response [W, H]) h =
     h\<lparr>cellWidth := go_quot W (termColumns h), cellHeight := go_quot H (termRows h)\<rparr>"
  by (simp add: detect_select_def)

text \<open>
  What the code computes: the integer quotients, truncated, with no lower bound.
\<close>

lemma detect_select_truncates:
  assumes "termColumns h > 0" and "termRows h > 0" and "0 \<le> W" and "0 \<le> H"
  shows "cellWidth (detect_select (Response [W, H]) h) = W div termColumns h \<and>
         cellHeight (detect_select (Response [W, H]) h) = H div termRows h \<and>
         cellWidth (detect_select (Response [W, H]) h)
           = \<lfloor>real_of_int W / real_of_int (termColumns h)\<rfloor> \<and>
         cellHeight (detect_select (Response [W, H]) h)
           = \<lfloor>real_of_int H / real_of_int (termRows h)\<rfloor>"
  using assms by (simp add: detect_select_Response go_quot_nonneg floor_divide_of_int_eq)

text \<open>
  C8. For a capability response with pixel width \<open>W\<close> and height \<open>H\<close> on a grid of \<open>C > 0\<close>
  columns by \<open>R > 0\<close> rows, the cell size is \<open>W/C\<close> by \<open>H/R\<close> rounded to the nearest integer,
  with a minimum of 1. The code does neither. For a window of 1030 by 500 pixels on the 80
  by 24 grid it derives 12 by 20, while the quotients 12.875 and 20.83 round to 13 and 21. For
  a response of 0 by 0 pixels it derives a cell of 0 by 0, and the same \<open>Start\<close> then panics
  with an integer division by zero in \<open>NewFish\<close>.
\<close>

theorem detect_cell_size_failing_input:
  "termColumns (New ''u'') = 80 \<and> termRows (New ''u'') = 24 \<and>
   cellWidth (detect_select (Response [1030, 500]) (New ''u'')) = 12 \<and>
   max 1 (round (1030 / 80 :: real)) = 13 \<and>
   cellHeight (detect_select (Response [1030, 500]) (New ''u'')) = 20 \<and>
   max 1 (round (500 / 24 :: real)) = 21 \<and>
   cellWidth (detect_select (Response [0, 0]) (New ''u'')) = 0 \<and>
   cellHeight (detect_select (Response [0, 0]) (New ''u'')) = 0 \<and>
   max 1 (round (0 / 80 :: real)) = 1 \<and>
   Start 0 (Response [0, 0]) 0 ''c'' half_draw (New ''u'') NewManager = Inl IntegerDivideByZero"
  by (simp add: New_def detect_select_def go_quot_def round_def Start_def AddConnection_def
      NewManager_def Let_def detectTerminalAndInit_def initializeAquarium_def GetTerminalConfig_def
      SetTerminalConfig_def StartAnimation_def AddFish_def NewFish_def)

lemma SetTerminal_keeps:
  "cellWidth (foldl (\<lambda>h (tt, cols, rows). SetTerminal tt cols rows h) h ptys) = cellWidth h \<and>
   cellHeight (foldl (\<lambda>h (tt, cols, rows). SetTerminal tt cols rows h) h ptys) = cellHeight h \<and>
   running (foldl (\<lambda>h (tt, cols, rows). SetTerminal tt cols rows h) h ptys) = running h \<and>
   username (foldl (\<lambda>h (tt, cols, rows). SetTerminal tt cols rows h) h ptys) = username h"
  by (induction ptys arbitrary: h) (simp_all add: SetTerminal_def split_beta)

lemma pty_handler_fields:
  "cellWidth (pty_handler user ptys) = 8" "cellHeight (pty_handler user ptys) = 16"
  "\<not> running (pty_handler user ptys)" "username (pty_handler user ptys) = user"
  "termColumns (pty_handler user []) = 80" "termRows (pty_handler user []) = 24"
  using SetTerminal_keeps [of "New user" ptys] by (simp_all add: pty_handler_def New_def)

lemma map_of_update_same: "map_of (AList.update k v al) k = Some v"
  by (simp add: update_conv')

lemma NewFish_returns:
  "ch \<noteq> 0 \<Longrightarrow>
   \<exists>f. NewFish ident ownerID tw th cw ch user color draw = Inr f \<and> OwnerID f = ownerID"
  by (simp add: NewFish_def Let_def)

lemma AddFish_spawns:
  assumes "map_of (connections m) cid = Some conn" and "termConfig m = Some tc"
    and "CellHeight tc \<noteq> 0"
  shows "\<exists>fid f m'. AddFish cid n color draw m = Inr ([fid], m') \<and>
           termConfig m' = Some tc \<and> animationStop m' = animationStop m \<and>
           map_of (fish m') fid = Some f \<and> OwnerID f = cid \<and>
           NewFish fid cid (int64_wrap (Columns tc * CellWidth tc))
             (int64_wrap (Rows tc * CellHeight tc)) (CellWidth tc) (CellHeight tc)
             (ConnUsername conn) color draw = Inr f \<and>
           map_of (connections m') cid = Some (conn\<lparr>FishIDs := FishIDs conn @ [fid]\<rparr>)"
proof -
  let ?fid = "atomic_add1 (fishCounter m)"
  obtain f where nf: "NewFish ?fid cid (int64_wrap (Columns tc * CellWidth tc))
      (int64_wrap (Rows tc * CellHeight tc)) (CellWidth tc) (CellHeight tc)
      (ConnUsername conn) color draw = Inr f" and own: "OwnerID f = cid"
    using NewFish_returns [OF assms(3)] by blast
  let ?m' = "m\<lparr>fishCounter := ?fid, fish := AList.update ?fid f (fish m),
               connections := AList.update cid (conn\<lparr>FishIDs := FishIDs conn @ [?fid]\<rparr>) (connections m)\<rparr>"
  have "AddFish cid n color draw m = Inr ([?fid], ?m')"
    unfolding AddFish_def Let_def by (simp only: assms(1,2) nf option.case sum.case)
  moreover have "termConfig ?m' = Some tc" "animationStop ?m' = animationStop m"
    using assms(2) by simp_all
  moreover have "map_of (fish ?m') ?fid = Some f"
    "map_of (connections ?m') cid = Some (conn\<lparr>FishIDs := FishIDs conn @ [?fid]\<rparr>)"
    by (simp_all add: map_of_update_same)
  ultimately show ?thesis using own nf by blast
qed

text \<open>
  C9 (amended). For every session that never delivers a matching capability response, once
  the timeout elapses the negotiation resolves without error and the cell size stays at the
  default 8 by 16 pixels; the character grid is the session's own, 80 by 24 when no pty
  request has set it. If the epoch has no capability yet, this becomes the epoch's
  capability; otherwise the epoch keeps the capability it has. Fish spawning proceeds under
  the epoch's capability: one fish owned by the session is added (given that an inherited
  capability has a non-zero cell height).
\<close>

theorem Start_timeout:
  assumes "h = pty_handler user ptys"
    and "termConfig m = None \<or> (\<exists>tc. termConfig m = Some tc \<and> CellHeight tc \<noteq> 0)"
  shows "\<exists>h' fid m' f conn.
           Start floorDraw Timeout now color draw h m = Inr (h', [fid], m') \<and>
           cellWidth h' = 8 \<and> cellHeight h' = 16 \<and>
           termColumns h' = termColumns h \<and> termRows h' = termRows h \<and>
           (ptys = [] \<longrightarrow> termColumns h' = 80 \<and> termRows h' = 24) \<and>
           termConfig m' = Some (case termConfig m of
                                   None \<Rightarrow> \<lparr>Columns = termColumns h, Rows = termRows h,
                                             CellWidth = 8, CellHeight = 16\<rparr>
                                 | Some tc \<Rightarrow> tc) \<and>
           map_of (fish m') fid = Some f \<and> OwnerID f = connID h' \<and>
           (\<exists>tc. termConfig m' = Some tc \<and>
              NewFish fid (connID h') (int64_wrap (Columns tc * CellWidth tc))
                (int64_wrap (Rows tc * CellHeight tc)) (CellWidth tc) (CellHeight tc)
                user color draw = Inr f) \<and>
           map_of (connections m') (connID h') = Some conn \<and> fid \<in> set (FishIDs conn)"
proof -
  obtain cid m1 where ac: "AddConnection (username h) floorDraw now m = (cid, m1)"
    by (cases "AddConnection (username h) floorDraw now m")
  have tc1: "termConfig m1 = termConfig m"
    using ac by (auto simp: AddConnection_def Let_def)
  obtain conn where reg: "map_of (connections m1) cid = Some conn"
    and cu: "ConnUsername conn = user"
    using ac assms(1) by (auto simp: AddConnection_def Let_def map_of_update_same pty_handler_fields)
  let ?h1 = "h\<lparr>running := True, connID := cid\<rparr>"
  let ?cfg = "\<lparr>Columns = termColumns h, Rows = termRows h, CellWidth = 8, CellHeight = 16\<rparr>"
  let ?m2 = "if termConfig m = None then StartAnimation now (SetTerminalConfig ?cfg m1) else m1"
  let ?tc = "case termConfig m of None \<Rightarrow> ?cfg | Some tc \<Rightarrow> tc"
  have f: "cellWidth h = 8" "cellHeight h = 16" "\<not> running h"
    "ptys = [] \<longrightarrow> termColumns h = 80 \<and> termRows h = 24"
    using assms(1) by (auto simp: pty_handler_fields)
  have reg2: "map_of (connections ?m2) cid = Some conn"
    using reg by (simp add: StartAnimation_def SetTerminalConfig_def)
  have tc2: "termConfig ?m2 = Some ?tc"
    using tc1 assms(2) by (auto simp: StartAnimation_def SetTerminalConfig_def)
  have nz: "CellHeight ?tc \<noteq> 0"
    using assms(2) by auto
  obtain fid fi m' where af: "AddFish cid 1 color draw ?m2 = Inr ([fid], m')"
    "termConfig m' = Some ?tc" "map_of (fish m') fid = Some fi" "OwnerID fi = cid"
    "map_of (connections m') cid = Some (conn\<lparr>FishIDs := FishIDs conn @ [fid]\<rparr>)"
    and nf: "NewFish fid cid (int64_wrap (Columns ?tc * CellWidth ?tc))
             (int64_wrap (Rows ?tc * CellHeight ?tc)) (CellWidth ?tc) (CellHeight ?tc)
             user color draw = Inr fi"
    using AddFish_spawns [OF reg2 tc2 nz, of 1 color draw] cu by auto
  have "Start floorDraw Timeout now color draw h m = Inr (?h1, [fid], m')"
  proof (cases "termConfig m")
    case None
    then show ?thesis
      using ac f af(1) tc1
      by (simp add: Start_def detectTerminalAndInit_def detect_select_def initializeAquarium_def
          GetTerminalConfig_def Let_def)
  next
    case (Some tc)
    then show ?thesis
      using ac f af(1) tc1
      by (simp add: Start_def detectTerminalAndInit_def detect_select_def initializeAquarium_def
          GetTerminalConfig_def Let_def)
  qed
  moreover have "fid \<in> set (FishIDs (conn\<lparr>FishIDs := FishIDs conn @ [fid]\<rparr>))" by simp
  moreover have "connID ?h1 = cid" "cellWidth ?h1 = 8" "cellHeight ?h1 = 16"
    "termColumns ?h1 = termColumns h" "termRows ?h1 = termRows h"
    "ptys = [] \<longrightarrow> termColumns ?h1 = 80 \<and> termRows ?h1 = 24"
    using f by simp_all
  moreover have "\<exists>tc. termConfig m' = Some tc \<and>
      NewFish fid (connID ?h1) (int64_wrap (Columns tc * CellWidth tc))
        (int64_wrap (Rows tc * CellHeight tc)) (CellWidth tc) (CellHeight tc)
        user color draw = Inr fi"
    using af(2) nf by (intro exI [of _ ?tc]) simp
  ultimately show ?thesis
    using af(2-5)
    by - (rule exI [of _ ?h1], rule exI [of _ fid], rule exI [of _ m'], rule exI [of _ fi],
          rule exI [of _ "conn\<lparr>FishIDs := FishIDs conn @ [fid]\<rparr>"], simp)
qed

lemma Start_first_session:
  "Start 0 Timeout 0 ''c'' half_draw (New ''u'') NewManager
     = Inr ((New ''u'')\<lparr>running := True, connID := 1\<rparr>, [1], epoch_manager)"
  by (simp add: epoch_manager_eq Start_def New_def AddConnection_def NewManager_def
      Let_def detectTerminalAndInit_def detect_select_def initializeAquarium_def GetTerminalConfig_def
      SetTerminalConfig_def StartAnimation_def AddFish_def NewFish_def int64_wrap_def go_quot_def
      half_draw_def cfg_80x24_def Intn_def)

theorem Start_timeout_witness:
  "termConfig NewManager = None \<and>
   Start 0 Timeout 0 ''c'' half_draw (pty_handler ''u'' []) NewManager
     = Inr ((New ''u'')\<lparr>running := True, connID := 1\<rparr>, [1], epoch_manager) \<and>
   termConfig epoch_manager = Some \<lparr>Columns = 80, Rows = 24, CellWidth = 8, CellHeight = 16\<rparr> \<and>
   length (fish epoch_manager) = 1"
proof -
  have n: "termConfig NewManager = None \<or> (\<exists>tc. termConfig NewManager = Some tc \<and> CellHeight tc \<noteq> 0)"
    by (simp add: NewManager_def)
  have e: "pty_handler ''u'' [] = New ''u''" by (simp add: pty_handler_def)
  show ?thesis
    using Start_timeout [OF refl n, of 0 0 "''c''" half_draw "''u''" "[]"]
    by (simp add: e Start_first_session) (simp add: epoch_manager_eq NewManager_def cfg_80x24_def)
qed

text \<open>
  C9 as stated fails for a session whose pty request announced 120 columns by 40 rows: after
  the timeout the epoch's capability is 120 by 40 characters with 8 by 16 pixel cells, not
  80 by 24.
\<close>

theorem Start_timeout_counterexample:
  "map_option termConfig
     (result_manager (Start 0 Timeout 0 ''c'' half_draw (pty_handler ''u'' [(''xterm'', 120, 40)]) NewManager))
   = Some (Some \<lparr>Columns = 120, Rows = 40, CellWidth = 8, CellHeight = 16\<rparr>) \<and>
   \<lparr>Columns = 120, Rows = 40, CellWidth = 8, CellHeight = 16\<rparr>
     \<noteq> \<lparr>Columns = 80, Rows = 24, CellWidth = 8, CellHeight = 16\<rparr>"
  by (simp add: result_manager_def pty_handler_def SetTerminal_def Start_def New_def AddConnection_def NewManager_def
      Let_def detectTerminalAndInit_def detect_select_def initializeAquarium_def GetTerminalConfig_def
      SetTerminalConfig_def StartAnimation_def AddFish_def NewFish_def)

section \<open>Image upload\<close>

lemma fmt_d_btoi: "fmt_d (btoi b) = (if b then ''1'' else ''0'')"
  by (simp add: fmt_d_def btoi_def decimal.simps digit_char_def)

lemma slice_chunk:
  "i < length b \<Longrightarrow> slice b i (min (i + chunkSize) (length b)) = take chunkSize (drop i b)"
  by (auto simp: slice_def min_def)

lemma upload_loop_Nil: "length b \<le> i \<Longrightarrow> upload_loop b ident i = []"
  by (simp add: upload_loop.simps)

lemma upload_loop_Cons:
  "i < length b \<Longrightarrow> upload_loop b ident i =
     (ESC # ''_G'' @
        (if i = 0
         then ''a=t,f=100,i='' @ fmt_d ident @ '',m='' @ (if i + chunkSize < length b then ''1'' else ''0'') @ '',q=1''
         else ''m='' @ (if i + chunkSize < length b then ''1'' else ''0''))
        @ '';'' @ take chunkSize (drop i b) @ ST)
     # upload_loop b ident (i + chunkSize)"
  by (subst upload_loop.simps) (simp add: Let_def slice_chunk fmt_d_btoi)

lemma upload_loop_frames:
  "\<exists>chunks. length chunks = length (upload_loop b ident i) \<and>
     concat chunks = drop i b \<and>
     (\<forall>k. k + 1 < length chunks \<longrightarrow> length (chunks ! k) = chunkSize) \<and>
     (\<forall>k < length chunks. chunks ! k \<noteq> [] \<and> length (chunks ! k) \<le> chunkSize \<and>
        upload_loop b ident i ! k =
          ESC # ''_G'' @
            (if i = 0 \<and> k = 0
             then ''a=t,f=100,i='' @ fmt_d ident @ '',m='' @ (if k + 1 < length chunks then ''1'' else ''0'') @ '',q=1''
             else ''m='' @ (if k + 1 < length chunks then ''1'' else ''0''))
            @ '';'' @ chunks ! k @ ST)"
proof (induction b ident i rule: upload_loop.induct)
  case (1 b ident i)
  show ?case
  proof (cases "i < length b")
    case False
    then have "upload_loop b ident i = []" by (simp add: upload_loop_Nil)
    with False show ?thesis by simp
  next
    case True
    let ?c = "take chunkSize (drop i b)"
    let ?rest = "upload_loop b ident (i + chunkSize)"
    from "1.IH" [OF True refl refl refl refl]
    obtain chunks where ch:
      "length chunks = length ?rest"
      "concat chunks = drop (i + chunkSize) b"
      "\<forall>k. k + 1 < length chunks \<longrightarrow> length (chunks ! k) = chunkSize"
      "\<forall>k < length chunks. chunks ! k \<noteq> [] \<and> length (chunks ! k) \<le> chunkSize \<and>
        ?rest ! k =
          ESC # ''_G'' @
            (if i + chunkSize = 0 \<and> k = 0
             then ''a=t,f=100,i='' @ fmt_d ident @ '',m='' @ (if k + 1 < length chunks then ''1'' else ''0'') @ '',q=1''
             else ''m='' @ (if k + 1 < length chunks then ''1'' else ''0''))
            @ '';'' @ chunks ! k @ ST"
      by blast
    have more: "i + chunkSize < length b \<longleftrightarrow> chunks \<noteq> []"
    proof
      assume "i + chunkSize < length b"
      then have "drop (i + chunkSize) b \<noteq> []" by simp
      with ch(2) show "chunks \<noteq> []" by auto
    next
      assume "chunks \<noteq> []"
      then have "0 < length chunks" by simp
      with ch(4) have "chunks ! 0 \<noteq> []" by blast
      then have "concat chunks \<noteq> []" using \<open>chunks \<noteq> []\<close> by (cases chunks) auto
      with ch(2) show "i + chunkSize < length b" by simp
    qed
    have cs: "chunkSize \<noteq> 0" by (simp add: chunkSize_def)
    have c_ne: "?c \<noteq> []" using True cs by simp
    have c_le: "length ?c \<le> chunkSize" by simp
    have c_full: "chunks \<noteq> [] \<Longrightarrow> length ?c = chunkSize"
      using more by auto
    have cat: "concat (?c # chunks) = drop i b"
      using ch(2) by (simp add: add.commute [of i] flip: drop_drop)
    have loop: "upload_loop b ident i =
       (ESC # ''_G'' @
        (if i = 0
         then ''a=t,f=100,i='' @ fmt_d ident @ '',m='' @ (if chunks \<noteq> [] then ''1'' else ''0'') @ '',q=1''
         else ''m='' @ (if chunks \<noteq> [] then ''1'' else ''0''))
        @ '';'' @ ?c @ ST) # ?rest"
      by (rule upload_loop_Cons [OF True, of ident, unfolded more])
    have len: "length (?c # chunks) = length (upload_loop b ident i)"
      using ch(1) loop by simp
    have full: "\<forall>k. k + 1 < length (?c # chunks) \<longrightarrow> length ((?c # chunks) ! k) = chunkSize"
    proof (intro allI impI)
      fix k assume k: "k + 1 < length (?c # chunks)"
      show "length ((?c # chunks) ! k) = chunkSize"
      proof (cases k)
        case 0
        with k have "chunks \<noteq> []" by auto
        with 0 c_full show ?thesis by simp
      next
        case (Suc j)
        with k ch(3) show ?thesis by simp
      qed
    qed
    have frames: "\<forall>k < length (?c # chunks). (?c # chunks) ! k \<noteq> [] \<and> length ((?c # chunks) ! k) \<le> chunkSize \<and>
        upload_loop b ident i ! k =
          ESC # ''_G'' @
            (if i = 0 \<and> k = 0
             then ''a=t,f=100,i='' @ fmt_d ident @ '',m='' @ (if k + 1 < length (?c # chunks) then ''1'' else ''0'') @ '',q=1''
             else ''m='' @ (if k + 1 < length (?c # chunks) then ''1'' else ''0''))
            @ '';'' @ (?c # chunks) ! k @ ST"
    proof (intro allI impI)
      fix k assume k: "k < length (?c # chunks)"
      show "(?c # chunks) ! k \<noteq> [] \<and> length ((?c # chunks) ! k) \<le> chunkSize \<and>
        upload_loop b ident i ! k =
          ESC # ''_G'' @
            (if i = 0 \<and> k = 0
             then ''a=t,f=100,i='' @ fmt_d ident @ '',m='' @ (if k + 1 < length (?c # chunks) then ''1'' else ''0'') @ '',q=1''
             else ''m='' @ (if k + 1 < length (?c # chunks) then ''1'' else ''0''))
            @ '';'' @ (?c # chunks) ! k @ ST"
      proof (cases k)
        case 0
        have "(0 < length chunks) = (chunks \<noteq> [])" by simp
        with 0 c_ne c_le loop show ?thesis by (simp del: length_greater_0_conv)
      next
        case (Suc j)
        with k have j: "j < length chunks" by simp
        from ch(4) j have
          "chunks ! j \<noteq> [] \<and> length (chunks ! j) \<le> chunkSize \<and>
           ?rest ! j = ESC # ''_G'' @ (''m='' @ (if j + 1 < length chunks then ''1'' else ''0''))
                         @ '';'' @ chunks ! j @ ST"
          using cs by simp
        with Suc loop show ?thesis by simp
      qed
    qed
    from len cat full frames show ?thesis by blast
  qed
qed

text \<open>
  C3. For every image byte buffer given to \<open>uploadImage\<close>, the frames written are one per
  chunk, where the chunks in order concatenate to the base64 encoding of the buffer, every
  chunk but possibly the last has exactly 4096 characters (and none is empty or longer), the
  first frame carries the transmit metadata \<open>a=t,f=100,i=<id>,m=<more>,q=1\<close>, every later
  frame carries only \<open>m=<more>\<close>, and \<open><more>\<close> is 0 on the final frame and 1 on every other.
\<close>

theorem uploadImage_frames:
  "\<exists>chunks. length chunks = length (uploadImage data imageID) \<and>
     concat chunks = EncodeToString data \<and>
     (\<forall>k. k + 1 < length chunks \<longrightarrow> length (chunks ! k) = 4096) \<and>
     (\<forall>k < length chunks. chunks ! k \<noteq> [] \<and> length (chunks ! k) \<le> 4096 \<and>
        uploadImage data imageID ! k =
          ESC # ''_G'' @
            (if k = 0
             then ''a=t,f=100,i='' @ fmt_d imageID @ '',m='' @ (if k + 1 < length chunks then ''1'' else ''0'') @ '',q=1''
             else ''m='' @ (if k + 1 < length chunks then ''1'' else ''0''))
            @ '';'' @ chunks ! k @ ST)"
  using upload_loop_frames [of "EncodeToString data" imageID 0]
  by (simp add: uploadImage_def chunkSize_def)

text \<open>
  3073 zero bytes encode to 4100 characters: a first frame with 4096 of them and the
  more-chunks flag set, a second and final frame with the remaining four and the flag clear.
\<close>

lemma EncodeToString_zeros:
  "EncodeToString (replicate (3 * n) 0 @ rest) = replicate (4 * n) CHR ''A'' @ EncodeToString rest"
proof (induction n)
  case 0
  show ?case by simp
next
  case (Suc n)
  have t: "3 * Suc n = Suc (Suc (Suc (3 * n)))" "4 * Suc n = Suc (Suc (Suc (Suc (4 * n))))"
    by simp_all
  have e3: "replicate (3 * Suc n) (0::8 word) = 0 # 0 # 0 # replicate (3 * n) 0"
    by (simp only: t replicate_Suc)
  have e4: "replicate (4 * Suc n) CHR ''A'' = ''AAAA'' @ replicate (4 * n) CHR ''A''"
    by (simp only: t replicate_Suc) simp
  show ?case
    unfolding e3 e4 using Suc by (simp add: b64_def encodeStd_def)
qed

lemma EncodeToString_3073:
  "EncodeToString (replicate 3073 0) = replicate 4096 CHR ''A'' @ ''AA==''"
proof -
  have a: "(3073::nat) = 3 * 1024 + 1" by simp
  have "replicate 3073 (0::8 word) = replicate (3 * 1024) 0 @ replicate 1 0"
    by (subst a) (rule replicate_add)
  then have "EncodeToString (replicate 3073 0)
      = replicate (4 * 1024) CHR ''A'' @ EncodeToString (replicate 1 0)"
    by (simp only: EncodeToString_zeros)
  then show ?thesis by (simp add: b64_def encodeStd_def)
qed

theorem uploadImage_frames_witness:
  "uploadImage (replicate 3073 0) 7 =
     [ESC # ''_Ga=t,f=100,i=7,m=1,q=1;'' @ replicate 4096 CHR ''A'' @ ST,
      ESC # ''_Gm=0;AA=='' @ ST]"
proof -
  have f7: "fmt_d 7 = ''7''"
    by (simp add: fmt_d_def decimal.simps digit_char_def)
  have l: "length (EncodeToString (replicate 3073 0)) = 4100"
    by (simp add: EncodeToString_3073)
  have "upload_loop (EncodeToString (replicate 3073 0)) 7 0 =
     [ESC # ''_Ga=t,f=100,i=7,m=1,q=1;'' @ replicate 4096 CHR ''A'' @ ST,
      ESC # ''_Gm=0;AA=='' @ ST]"
    by (simp add: upload_loop_Cons upload_loop_Nil l f7 chunkSize_def)
       (simp add: EncodeToString_3073)
  then show ?thesis
    using uploadImage_frames [of "replicate 3073 0" 7]
    by (simp add: uploadImage_def)
qed


end
